theory Spec2Isabelle
  imports Complex_Main
begin

section \<open>Python values and exceptions\<close>

text \<open>
  The rocket design code is numerical Python. Its numbers (ints and floats alike) are
  modelled as \<^typ>\<open>real\<close>: exact arithmetic, without rounding, overflow or NaN.
  What Python raises is a value: a computation returns \<open>Inl e\<close> when the source
  raises \<open>e\<close>, and \<open>Inr v\<close> when it returns \<open>v\<close>.
\<close>

datatype py_error = ZeroDivisionError | ValueError | KeyError | IndexError | TypeError

type_synonym 'a result = "py_error + 'a"

definition and_then :: "'a result \<Rightarrow> ('a \<Rightarrow> 'b result) \<Rightarrow> 'b result" where
  "and_then m f = (case m of Inl e \<Rightarrow> Inl e | Inr x \<Rightarrow> f x)"

definition raises :: "'a result \<Rightarrow> bool" where
  "raises m = (case m of Inl e \<Rightarrow> True | Inr x \<Rightarrow> False)"

text \<open>\<open>a / b\<close>: raises ZeroDivisionError on a zero divisor.\<close>

definition py_div :: "real \<Rightarrow> real \<Rightarrow> real result" where
  "py_div a b = (if b = 0 then Inl ZeroDivisionError else Inr (a / b))"

text \<open>\<open>math.log(x)\<close> and \<open>math.sqrt(x)\<close>: ValueError (math domain error) outside the domain.\<close>

definition py_log :: "real \<Rightarrow> real result" where
  "py_log x = (if x \<le> 0 then Inl ValueError else Inr (ln x))"

definition py_sqrt :: "real \<Rightarrow> real result" where
  "py_sqrt x = (if x < 0 then Inl ValueError else Inr (sqrt x))"

text \<open>
  \<open>x ** y\<close> on floats. A zero base with a negative exponent raises ZeroDivisionError.
  A negative base with a fractional exponent gives a complex number in Python 3, which
  the \<open>math.sqrt\<close> that consumes it rejects with TypeError; the model reports that
  TypeError at once.
\<close>

definition py_pow :: "real \<Rightarrow> real \<Rightarrow> real result" where
  "py_pow x y =
     (if 0 < x then Inr (x powr y)
      else if x = 0 then
        (if 0 < y then Inr 0 else if y = 0 then Inr 1 else Inl ZeroDivisionError)
      else if y \<in> \<int> then Inr (x powi \<lfloor>y\<rfloor>)
      else Inl TypeError)"

text \<open>\<open>d[k]\<close> on a dict: KeyError on a missing key.\<close>

definition dict_get :: "('k \<rightharpoonup> 'v) \<Rightarrow> 'k \<Rightarrow> 'v result" where
  "dict_get d k = (case d k of None \<Rightarrow> Inl KeyError | Some v \<Rightarrow> Inr v)"

text \<open>\<open>str.lower()\<close> on ASCII text, and the substring test \<open>sub in s\<close>.\<close>

definition lower_char :: "char \<Rightarrow> char" where
  "lower_char c =
     (let n = (of_char c :: nat) in if 65 \<le> n \<and> n \<le> 90 then char_of (n + 32) else c)"

definition lower :: "string \<Rightarrow> string" where
  "lower s = map lower_char s"

fun starts_with :: "string \<Rightarrow> string \<Rightarrow> bool" where
  "starts_with s [] = True"
| "starts_with [] (p # ps) = False"
| "starts_with (c # cs) (p # ps) = (c = p \<and> starts_with cs ps)"

fun contains :: "string \<Rightarrow> string \<Rightarrow> bool" where
  "contains [] sub = (sub = [])"
| "contains (c # cs) sub = (starts_with (c # cs) sub \<or> contains cs sub)"

section \<open>rocket\_physics.py\<close>

definition GRAVITY :: real where
  "GRAVITY = 981 / 100"

definition EARTH_RADIUS :: real where
  "EARTH_RADIUS = 6371000"

definition SEA_LEVEL_PRESSURE :: real where
  "SEA_LEVEL_PRESSURE = 101325"

subsection \<open>The propellant catalog\<close>

record propellant_props =
  prop_name :: string
  isp_vac :: real
  isp_sl :: real
  density :: real
  mixture_ratio :: "real option"
  chamber_temp :: real
  chamber_pressure :: real
  gamma :: real

definition LOX_LH2 :: propellant_props where
  "LOX_LH2 = \<lparr> prop_name = ''Liquid Oxygen/Liquid Hydrogen'', isp_vac = 450, isp_sl = 370,
     density = 360, mixture_ratio = Some (55 / 10), chamber_temp = 3200,
     chamber_pressure = 6900000, gamma = 126 / 100 \<rparr>"

definition LOX_RP1 :: propellant_props where
  "LOX_RP1 = \<lparr> prop_name = ''Liquid Oxygen/RP-1'', isp_vac = 340, isp_sl = 280,
     density = 1030, mixture_ratio = Some (256 / 100), chamber_temp = 3670,
     chamber_pressure = 7600000, gamma = 122 / 100 \<rparr>"

definition HTPB :: propellant_props where
  "HTPB = \<lparr> prop_name = ''HTPB Solid Propellant'', isp_vac = 280, isp_sl = 250,
     density = 1700, mixture_ratio = None, chamber_temp = 3400,
     chamber_pressure = 6200000, gamma = 118 / 100 \<rparr>"

definition PROPELLANT_COMBINATIONS :: "string \<rightharpoonup> propellant_props" where
  "PROPELLANT_COMBINATIONS =
     [''LOX/LH2'' \<mapsto> LOX_LH2, ''LOX/RP1'' \<mapsto> LOX_RP1, ''HTPB'' \<mapsto> HTPB]"

subsection \<open>Stage\<close>

text \<open>
  The attributes of a \<open>Stage\<close> object. \<open>stage_length\<close> is the attribute
  \<open>length\<close>. The last six are the engine parameters that
  \<open>_calculate_engine_parameters\<close> assigns.
\<close>

record Stage =
  name :: string
  dry_mass :: real
  propellant_mass :: real
  thrust_sl :: real
  thrust_vac :: real
  burn_time :: real
  diameter :: real
  stage_length :: real
  propellant :: propellant_props
  mass_ratio :: real
  total_mass :: real
  propellant_flow_rate :: real
  throat_area :: real
  throat_diameter :: real
  expansion_ratio :: real
  exit_area :: real
  exit_diameter :: real
  nozzle_length :: real

definition calculate_thrust_coefficient :: "real \<Rightarrow> real \<Rightarrow> real result" where
  "calculate_thrust_coefficient eps g =
     and_then (py_div (2 * g ^ 2) (g - 1)) (\<lambda>q.
     and_then (py_sqrt q) (\<lambda>term1.
     and_then (py_div 2 (g + 1)) (\<lambda>b.
     and_then (py_div (g + 1) (g - 1)) (\<lambda>e.
     and_then (py_pow b e) (\<lambda>term2.
     and_then (py_div 1 eps) (\<lambda>r.
     and_then (py_pow r (g - 1)) (\<lambda>p.
     and_then (py_div p g) (\<lambda>pg.
     and_then (py_sqrt (1 - pg)) (\<lambda>s.
     Inr (term1 * term2 * s * (98 / 100)))))))))))"

definition calculate_optimal_expansion_ratio :: "string \<Rightarrow> real \<Rightarrow> real" where
  "calculate_optimal_expansion_ratio nm g =
     (if contains (lower nm) ''first'' \<or> contains (lower nm) ''booster'' then 10
      else if contains (lower nm) ''second'' then 40
      else if contains (lower nm) ''third'' \<or> contains (lower nm) ''upper'' then 80
      else 25)"

text \<open>\<open>math.radians(15)\<close>.\<close>

definition radians15 :: real where
  "radians15 = 15 * pi / 180"

definition calculate_engine_parameters :: "Stage \<Rightarrow> Stage result" where
  "calculate_engine_parameters s =
     (let pc = chamber_pressure (propellant s);
          g = gamma (propellant s)
      in and_then (calculate_thrust_coefficient 20 g) (\<lambda>Cf.
         and_then (py_div (thrust_vac s) (Cf * pc)) (\<lambda>ta.
         and_then (py_sqrt (ta / pi)) (\<lambda>rt.
         let td = 2 * rt;
             er = calculate_optimal_expansion_ratio (name s) g;
             ea = ta * er
         in and_then (py_sqrt (ea / pi)) (\<lambda>re.
         let ed = 2 * re;
             conical_length = (ed - td) / (2 * tan radians15)
         in Inr (s\<lparr> throat_area := ta, throat_diameter := td, expansion_ratio := er,
                    exit_area := ea, exit_diameter := ed,
                    nozzle_length := (8 / 10) * conical_length \<rparr>))))))"

text \<open>
  \<open>Stage.__init__\<close>. An unknown propellant type falls back to the LOX/LH2 entry.
  The engine attributes do not exist before \<open>_calculate_engine_parameters\<close> runs;
  the record holds 0 there until that call overwrites all six.
\<close>

definition Stage_init ::
  "string \<Rightarrow> real \<Rightarrow> real \<Rightarrow> real \<Rightarrow> real \<Rightarrow> real \<Rightarrow> real \<Rightarrow> real \<Rightarrow> string \<Rightarrow> Stage result" where
  "Stage_init nm dry prop tsl tvac bt dia len ptype =
     and_then (if ptype \<in> dom PROPELLANT_COMBINATIONS
               then dict_get PROPELLANT_COMBINATIONS ptype
               else dict_get PROPELLANT_COMBINATIONS ''LOX/LH2'') (\<lambda>p.
     and_then (py_div (dry + prop) dry) (\<lambda>mr.
     and_then (if 0 < bt then py_div prop bt else Inr 0) (\<lambda>flow.
     calculate_engine_parameters
       \<lparr> name = nm, dry_mass = dry, propellant_mass = prop, thrust_sl = tsl,
         thrust_vac = tvac, burn_time = bt, diameter = dia, stage_length = len,
         propellant = p, mass_ratio = mr, total_mass = dry + prop,
         propellant_flow_rate = flow, throat_area = 0, throat_diameter = 0,
         expansion_ratio = 0, exit_area = 0, exit_diameter = 0, nozzle_length = 0 \<rparr>)))"

text \<open>The propellant entry that \<open>Stage.__init__\<close> selects, in closed form.\<close>

definition stage_propellant :: "string \<Rightarrow> propellant_props" where
  "stage_propellant ptype =
     (case PROPELLANT_COMBINATIONS ptype of Some p \<Rightarrow> p | None \<Rightarrow> LOX_LH2)"

definition get_delta_v :: "Stage \<Rightarrow> real result" where
  "get_delta_v s =
     (let isp = isp_vac (propellant s);
          g0 = GRAVITY
      in and_then (py_log (mass_ratio s)) (\<lambda>l. Inr (isp * g0 * l)))"

subsection \<open>MultiStageRocket\<close>

text \<open>
  The payload and the ordered stages, liftoff stage first. The attribute \<open>name\<close>
  is a display string that no computation reads; it is left out.
\<close>

record MultiStageRocket =
  payload_mass :: real
  stages :: "Stage list"

definition get_total_mass :: "MultiStageRocket \<Rightarrow> real" where
  "get_total_mass r = foldl (\<lambda>total stage. total + total_mass stage) (payload_mass r) (stages r)"

text \<open>
  The loop of \<open>get_total_delta_v\<close>, on the accumulated delta-v and the running mass.
\<close>

fun total_delta_v_loop :: "real \<Rightarrow> real \<Rightarrow> Stage list \<Rightarrow> real result" where
  "total_delta_v_loop delta_v current_mass [] = Inr delta_v"
| "total_delta_v_loop delta_v current_mass (stage # rest) =
     (let stage_start_mass = current_mass;
          current_mass' = current_mass - (propellant_mass stage + dry_mass stage);
          isp = isp_vac (propellant stage)
      in case py_div stage_start_mass current_mass' of
           Inl e \<Rightarrow> Inl e
         | Inr q \<Rightarrow>
             (case py_log q of
                Inl e \<Rightarrow> Inl e
              | Inr l \<Rightarrow> total_delta_v_loop (delta_v + GRAVITY * isp * l) current_mass' rest))"

definition get_total_delta_v :: "MultiStageRocket \<Rightarrow> real result" where
  "get_total_delta_v r = total_delta_v_loop 0 (get_total_mass r) (stages r)"

definition get_height :: "MultiStageRocket \<Rightarrow> real" where
  "get_height r =
     (let height = foldl (\<lambda>h stage. h + stage_length stage) 0 (stages r)
      in height + (1 / 10) * height)"

section \<open>rocket\_optimizer.py\<close>

text \<open>\<open>xs[i]\<close> for a non-negative index: IndexError when out of range.\<close>

definition list_get :: "'a list \<Rightarrow> nat \<Rightarrow> 'a result" where
  "list_get xs i = (if i < length xs then Inr (xs ! i) else Inl IndexError)"

text \<open>A loop that appends one constructed element per item and stops at the first raise.\<close>

fun collect :: "('a \<Rightarrow> 'b result) \<Rightarrow> 'a list \<Rightarrow> 'b list result" where
  "collect f [] = Inr []"
| "collect f (x # xs) =
     (case f x of
        Inl e \<Rightarrow> Inl e
      | Inr y \<Rightarrow> (case collect f xs of Inl e \<Rightarrow> Inl e | Inr ys \<Rightarrow> Inr (y # ys)))"

text \<open>\<open>str(n)\<close> for a natural number, as the f-string \<open>f"Stage {i+1}"\<close> needs it.\<close>

fun str_nat :: "nat \<Rightarrow> string" where
  "str_nat n =
     (if n < 10 then [char_of (48 + n)]
      else str_nat (n div 10) @ [char_of (48 + n mod 10)])"

text \<open>What the optimizer prints, with the numbers it formats.\<close>

datatype log_line =
    TWR_too_low real
  | Estimate_details real real real real real
  | Initial_configuration int real

text \<open>
  The optimizer object. \<open>self.stages\<close> and \<open>self.rocket.stages\<close> are one list
  object holding the same \<open>Stage\<close> objects, so the model keeps the stages once, in
  \<open>rocket\<close>. \<open>opt_payload_mass\<close> is \<open>self.payload_mass\<close>.
\<close>

record RocketOptimizer =
  target_altitude :: real
  opt_payload_mass :: real
  propellant_type :: string
  num_stages :: int
  initial_diameter :: real
  safety_factor :: real
  rocket :: MultiStageRocket
  max_altitude :: real

definition min_wall_thickness :: "real \<Rightarrow> real" where
  "min_wall_thickness d = max (2 / 1000) ((4 / 1000) * d)"

definition stage_mass_fractions :: "int \<rightharpoonup> real list" where
  "stage_mass_fractions = [1 \<mapsto> [1], 2 \<mapsto> [80 / 100, 20 / 100], 3 \<mapsto> [75 / 100, 20 / 100, 5 / 100]]"

definition stage_propellants :: "int \<rightharpoonup> (nat \<rightharpoonup> string)" where
  "stage_propellants =
     [1 \<mapsto> [0 \<mapsto> ''LOX/RP1''],
      2 \<mapsto> [0 \<mapsto> ''LOX/RP1'', 1 \<mapsto> ''LOX/LH2''],
      3 \<mapsto> [0 \<mapsto> ''LOX/RP1'', 1 \<mapsto> ''LOX/LH2'', 2 \<mapsto> ''LOX/LH2'']]"

text \<open>The body of the loop of \<open>_initialize_rocket\<close> for stage index \<open>i\<close>.\<close>

definition initial_stage :: "real \<Rightarrow> real \<Rightarrow> int \<Rightarrow> nat \<Rightarrow> Stage result" where
  "initial_stage target payload n i =
     (let initial_mass_ratio = (if target < 100000 then 20 else if target < 400000 then 30 else 50);
          total_mass_estimate = payload * initial_mass_ratio;
          base_diameter =
            (if target < 100000 then 15 / 10 else if target < 400000 then 37 / 10 else 84 / 10);
          diameter_factor = (if i = 0 then 1 else if i = 1 then 9 / 10 else 8 / 10);
          dia = base_diameter * diameter_factor
      in and_then (dict_get stage_mass_fractions n) (\<lambda>fractions.
         and_then (list_get fractions i) (\<lambda>fraction.
         let stage_mass = total_mass_estimate * fraction;
             propellant_fraction = (if i = 0 then 93 / 100 else if i = 1 then 90 / 100 else 88 / 100);
             prop = stage_mass * propellant_fraction;
             dry = stage_mass - prop;
             base_l_to_d = (if i = 0 then 10 else if i = 1 then 5 else 3);
             len = dia * base_l_to_d
         in and_then (dict_get stage_propellants n) (\<lambda>by_index.
            and_then (dict_get by_index i) (\<lambda>ptype.
            let tsl = (if i = 0 then (14 / 10) * stage_mass * GRAVITY else 0);
                tvac = (if i = 0 then (16 / 10) * stage_mass * GRAVITY
                        else (9 / 10) * stage_mass * GRAVITY);
                isp = (if ptype = ''LOX/RP1'' then 340 else 450)
            in and_then
                 (if 0 < prop \<and> 0 < tvac
                  then and_then (py_div tvac (isp * GRAVITY)) (\<lambda>mdot. py_div prop mdot)
                  else Inr 200) (\<lambda>bt.
               Stage_init (''Stage '' @ str_nat (i + 1)) dry prop tsl tvac bt dia len ptype))))))"

definition estimate_altitude :: "RocketOptimizer \<Rightarrow> (real \<times> log_line list) result" where
  "estimate_altitude opt =
     and_then (get_total_delta_v (rocket opt)) (\<lambda>delta_v.
     let initial_mass = get_total_mass (rocket opt);
         first_stage_thrust_sl =
           (case stages (rocket opt) of [] \<Rightarrow> 0 | s # rest \<Rightarrow> thrust_sl s)
     in and_then (py_div first_stage_thrust_sl (initial_mass * GRAVITY)) (\<lambda>twr.
        if twr < 12 / 10 then Inr (0, [TWR_too_low twr])
        else
          and_then (py_div (15 / 10) twr) (\<lambda>q.
          let gravity_loss = 1500 * q
          in and_then (list_get (stages (rocket opt)) 0) (\<lambda>s0.
             let dia = diameter s0;
                 len = get_height (rocket opt)
             in and_then (py_div len dia) (\<lambda>fineness_ratio.
                and_then (py_div 3 fineness_ratio) (\<lambda>q3.
                let drag_loss = 300 * q3 * (dia / 3);
                    effective_delta_v = delta_v - gravity_loss - drag_loss;
                    out = [Estimate_details delta_v twr gravity_loss drag_loss effective_delta_v]
                in if effective_delta_v \<le> 0 then Inr (0, out)
                   else if effective_delta_v < 7800
                   then Inr (effective_delta_v ^ 2 / (2 * GRAVITY) * (85 / 100), out)
                   else
                     and_then (py_div (GRAVITY * EARTH_RADIUS ^ 2) (effective_delta_v ^ 2))
                       (\<lambda>orbital_radius. Inr (max 0 (orbital_radius - EARTH_RADIUS), out))))))))"

text \<open>
  \<open>__init__\<close> followed by \<open>_initialize_rocket\<close>: the optimizer and what it printed.
  \<open>range(n)\<close> is empty for \<open>n \<le> 0\<close>.
\<close>

definition RocketOptimizer_init ::
  "real \<Rightarrow> real \<Rightarrow> string \<Rightarrow> int \<Rightarrow> real \<Rightarrow> real \<Rightarrow> (RocketOptimizer \<times> log_line list) result" where
  "RocketOptimizer_init target payload ptype n dia0 sf =
     and_then (collect (initial_stage target payload n) [0 ..< nat n]) (\<lambda>sts.
     let opt = \<lparr> target_altitude = target, opt_payload_mass = payload, propellant_type = ptype,
                 num_stages = n, initial_diameter = dia0, safety_factor = sf,
                 rocket = \<lparr> payload_mass = payload, stages = sts \<rparr>, max_altitude = 0 \<rparr>
     in and_then (estimate_altitude opt) (\<lambda>(alt, out).
        Inr (opt\<lparr> max_altitude := alt \<rparr>, out @ [Initial_configuration n alt])))"

text \<open>
  The internal tank pressure that \<open>_calculate_wall_thickness\<close> picks: the test is
  \<open>"LOX" in stage.propellant["name"]\<close>.
\<close>

definition tank_pressure :: "Stage \<Rightarrow> real" where
  "tank_pressure stage =
     (if contains (prop_name (propellant stage)) ''LOX'' then 300000 else 200000)"

definition calculate_wall_thickness :: "RocketOptimizer \<Rightarrow> nat \<Rightarrow> real result" where
  "calculate_wall_thickness opt stage_index =
     and_then (list_get (stages (rocket opt)) stage_index) (\<lambda>stage.
     let external_pressure = (if stage_index = 0 then 101325 else 0);
         delta_p = tank_pressure stage - external_pressure;
         max_accel = 5 * GRAVITY;
         stage_mass_above =
           foldl (\<lambda>m s. m + total_mass s) (opt_payload_mass opt)
             (take stage_index (stages (rocket opt)));
         accel_force = stage_mass_above * max_accel;
         cross_area = pi * (diameter stage) ^ 2 / 4
     in and_then (py_div accel_force cross_area) (\<lambda>accel_stress.
        and_then (py_div 270000000 (safety_factor opt)) (\<lambda>allowable.
        and_then (py_div (delta_p * diameter stage / 2) allowable) (\<lambda>min_thickness_pressure.
        and_then (py_div (accel_stress * (diameter stage / 2)) allowable) (\<lambda>min_thickness_accel.
        let min_thickness = max min_thickness_pressure min_thickness_accel;
            practical_min = min_wall_thickness (diameter stage)
        in Inr (max min_thickness practical_min))))))"

section \<open>src/performance\_analysis.py\<close>

text \<open>The constants that \<open>RocketPerformanceAnalyzer.__init__\<close> sets.\<close>

definition g0 :: real where "g0 = 981 / 100"
definition R_air :: real where "R_air = 28705 / 100"
definition p0 :: real where "p0 = 101325"
definition T0 :: real where "T0 = 28815 / 100"
definition rho0 :: real where "rho0 = 1225 / 1000"

text \<open>The scalar summary of a trajectory dictionary; the time series are left out.\<close>

record trajectory =
  apogee :: real
  apogee_time :: real
  max_velocity :: real
  max_acceleration :: real
  max_q :: real

text \<open>
  The attributes of the analyzer that the trajectory and payload code reads or writes.
  The mass attributes carry the prefix \<open>pa\<close>: \<open>pa_dry_mass\<close> is \<open>self.dry_mass\<close>.
\<close>

record RocketPerformanceAnalyzer =
  rocket_config :: "string \<rightharpoonup> real"
  performance_metrics :: "string \<rightharpoonup> real"
  pa_dry_mass :: real
  pa_propellant_mass :: real
  pa_burn_time :: real
  pa_total_mass :: real
  trajectory_data :: "trajectory option"

subsection \<open>The functions nested in analyze\_trajectory\<close>

definition thrust_function :: "RocketPerformanceAnalyzer \<Rightarrow> real \<Rightarrow> real result" where
  "thrust_function a t =
     (if t \<le> pa_burn_time a then dict_get (performance_metrics a) ''thrust'' else Inr 0)"

definition mass_function :: "RocketPerformanceAnalyzer \<Rightarrow> real \<Rightarrow> real result" where
  "mass_function a t =
     (if t \<le> pa_burn_time a
      then and_then (py_div (pa_propellant_mass a) (pa_burn_time a))
             (\<lambda>rate. Inr (pa_total_mass a - rate * t))
      else Inr (pa_dry_mass a))"

definition atmospheric_properties :: "real \<Rightarrow> (real \<times> real \<times> real) result" where
  "atmospheric_properties altitude =
     (if altitude < 0 then Inr (p0, rho0, T0)
      else
        let h_p = 7500;
            h_rho = 7000;
            pressure = p0 * exp (- altitude / h_p);
            dens = rho0 * exp (- altitude / h_rho)
        in and_then (py_div pressure (dens * R_air))
             (\<lambda>temperature. Inr (pressure, dens, temperature)))"

definition drag_coefficient :: "real \<Rightarrow> real" where
  "drag_coefficient mach =
     (if mach < 8 / 10 then 2 / 10
      else if mach < 12 / 10 then 2 / 10 + (4 / 10) * (mach - 8 / 10) / (4 / 10)
      else 6 / 10 - (1 / 10) * min (mach - 12 / 10) 3 / 3)"

text \<open>\<open>math.copysign(x, y)\<close>; a real \<open>y = 0\<close> stands for the float \<open>+0.0\<close>.\<close>

definition copysign :: "real \<Rightarrow> real \<Rightarrow> real" where
  "copysign x y = (if 0 \<le> y then \<bar>x\<bar> else - \<bar>x\<bar>)"

definition drag_force :: "RocketPerformanceAnalyzer \<Rightarrow> real \<Rightarrow> real \<Rightarrow> real result" where
  "drag_force a altitude velocity =
     and_then (atmospheric_properties altitude) (\<lambda>(pressure, dens, temperature).
     and_then (py_sqrt ((14 / 10) * R_air * temperature)) (\<lambda>speed_of_sound.
     and_then (if 0 < speed_of_sound then py_div \<bar>velocity\<bar> speed_of_sound else Inr 0) (\<lambda>mach.
     and_then (dict_get (rocket_config a) ''max_diameter'') (\<lambda>d.
     let dia = d / 1000;
         reference_area = pi * (dia / 2) ^ 2;
         cd = drag_coefficient mach;
         drag = (1 / 2) * dens * velocity ^ 2 * cd * reference_area
     in Inr (- copysign drag velocity)))))"

definition dynamics ::
  "RocketPerformanceAnalyzer \<Rightarrow> real \<Rightarrow> real \<times> real \<Rightarrow> (real \<times> real) result" where
  "dynamics a t y =
     (case y of (altitude, velocity) \<Rightarrow>
        and_then (mass_function a t) (\<lambda>mass.
        and_then (thrust_function a t) (\<lambda>thrust.
        let r_earth = 6371000
        in and_then (py_div r_earth (r_earth + altitude)) (\<lambda>q.
           let gravity = g0 * q ^ 2
           in and_then (drag_force a altitude velocity) (\<lambda>drag.
              and_then (py_div (thrust + drag) mass) (\<lambda>f.
              Inr (velocity, f - gravity)))))))"

subsection \<open>analyze\_trajectory and calculate\_maximum\_payload\<close>

text \<open>
  \<open>analyze_trajectory\<close> hands \<open>dynamics\<close> to SciPy's \<open>solve_ivp\<close> and reduces the
  solution to a trajectory dictionary. The integration is outside this repository: the
  parameter \<open>solver\<close> stands for it, from the analyzer's attributes to the trajectory
  or to what it raises. The method itself only stores the result in
  \<open>self.trajectory_data\<close>.
\<close>

definition analyze_trajectory ::
  "(RocketPerformanceAnalyzer \<Rightarrow> trajectory result) \<Rightarrow> RocketPerformanceAnalyzer
     \<Rightarrow> (RocketPerformanceAnalyzer \<times> trajectory) result" where
  "analyze_trajectory solver a =
     and_then (solver a) (\<lambda>tr. Inr (a\<lparr> trajectory_data := Some tr \<rparr>, tr))"

record payload_info =
  max_payload :: real
  altitude_with_max_payload :: real
  info_target_altitude :: real
  altitude_difference :: real

text \<open>
  The \<open>while step >= min_step\<close> loop, on (step, current\_payload, current\_altitude) and
  the analyzer. It need not end, so it is a partial function: \<open>None\<close> is a loop that
  runs forever, \<open>Some (Inl e)\<close> a raise, \<open>Some (Inr \<dots>)\<close> the state at the loop's exit.
\<close>

partial_function (option) payload_search ::
  "(RocketPerformanceAnalyzer \<Rightarrow> trajectory result) \<Rightarrow> real \<Rightarrow> bool \<Rightarrow> real \<Rightarrow> real
     \<Rightarrow> real \<Rightarrow> real \<Rightarrow> real \<Rightarrow> RocketPerformanceAnalyzer
     \<Rightarrow> ((real \<times> real \<times> RocketPerformanceAnalyzer) result) option" where
  "payload_search solver original_dry_mass maximize_payload target rng
       step current_payload current_altitude a =
     (if 1 / 10 \<le> step then
        (let test_payload = current_payload + step;
             a1 = a\<lparr> pa_dry_mass := original_dry_mass - current_payload + test_payload \<rparr>
         in case analyze_trajectory solver a1 of
              Inl e \<Rightarrow> Some (Inl e)
            | Inr (a2, tr) \<Rightarrow>
                (let test_altitude = apogee tr
                 in if maximize_payload then
                      (if target \<le> test_altitude
                       then payload_search solver original_dry_mass maximize_payload target rng
                              step test_payload test_altitude a2
                       else payload_search solver original_dry_mass maximize_payload target rng
                              (step / 2) current_payload current_altitude a2)
                    else if \<bar>test_altitude - target\<bar> \<le> rng
                      then Some (Inr (test_payload, test_altitude, a2))
                    else if target < test_altitude
                      then payload_search solver original_dry_mass maximize_payload target rng
                             step test_payload test_altitude a2
                    else payload_search solver original_dry_mass maximize_payload target rng
                           (step / 2) current_payload current_altitude a2))
      else Some (Inr (current_payload, current_altitude, a)))"

definition calculate_maximum_payload ::
  "(RocketPerformanceAnalyzer \<Rightarrow> trajectory result) \<Rightarrow> RocketPerformanceAnalyzer
     \<Rightarrow> real option \<Rightarrow> real option
     \<Rightarrow> ((RocketPerformanceAnalyzer \<times> payload_info) result) option" where
  "calculate_maximum_payload solver a target_opt range_opt =
     (let current_payload = 50;
          original_dry_mass = pa_dry_mass a;
          step = 25;
          a0 = a\<lparr> pa_dry_mass := original_dry_mass \<rparr>
      in case analyze_trajectory solver a0 of
           Inl e \<Rightarrow> Some (Inl e)
         | Inr (a1, tr) \<Rightarrow>
             (let current_altitude = apogee tr;
                  target = (case target_opt of None \<Rightarrow> 1000 | Some t \<Rightarrow> t);
                  maximize_payload = (target_opt = None);
                  rng = (case range_opt of None \<Rightarrow> target * (5 / 100) | Some r \<Rightarrow> r)
              in case payload_search solver original_dry_mass maximize_payload target rng
                        step current_payload current_altitude a1 of
                   None \<Rightarrow> None
                 | Some (Inl e) \<Rightarrow> Some (Inl e)
                 | Some (Inr (payload, altitude, a2)) \<Rightarrow>
                     Some (Inr (a2\<lparr> pa_dry_mass := original_dry_mass \<rparr>,
                                \<lparr> max_payload = payload, altitude_with_max_payload = altitude,
                                  info_target_altitude = target,
                                  altitude_difference = altitude - target \<rparr>))))"

section \<open>leo\_rocket\_design.py\<close>

text \<open>
  The rocket equation as the LEO design script applies it to each of its two stages
  (\<open>calculate_first_stage\<close>, \<open>calculate_upper_stage\<close>): the initial mass is the
  vehicle with the stage full, the final mass is the vehicle with the stage's propellant
  gone and the stage's dry mass still attached. \<open>GRAVITY\<close> is the constant that the
  script imports from \<open>rocket_physics\<close>.
\<close>

definition calculate_delta_v :: "real \<Rightarrow> real \<Rightarrow> real \<Rightarrow> real result" where
  "calculate_delta_v initial_mass final_mass isp =
     and_then (py_div initial_mass final_mass) (\<lambda>q.
     and_then (py_log q) (\<lambda>l. Inr (GRAVITY * isp * l)))"

section \<open>Notions used to state the properties\<close>

text \<open>
  A stage with positive masses whose derived attributes are in step with them, and a
  propellant of positive vacuum specific impulse: what the constructor establishes for
  positive masses, and what the optimizer's mass updates keep.
\<close>

definition valid_stage :: "Stage \<Rightarrow> bool" where
  "valid_stage s \<longleftrightarrow>
     0 < dry_mass s \<and> 0 < propellant_mass s
     \<and> total_mass s = dry_mass s + propellant_mass s
     \<and> mass_ratio s = total_mass s / dry_mass s
     \<and> 0 < isp_vac (propellant s)"

text \<open>
  The naive total: every stage's own \<open>get_delta_v\<close>, added up. The source does not
  compute it; it is what the total delta-v is compared with.
\<close>

fun sum_delta_v :: "Stage list \<Rightarrow> real result" where
  "sum_delta_v [] = Inr 0"
| "sum_delta_v (s # rest) =
     (case get_delta_v s of
        Inl e \<Rightarrow> Inl e
      | Inr v \<Rightarrow> (case sum_delta_v rest of Inl e \<Rightarrow> Inl e | Inr w \<Rightarrow> Inr (v + w)))"

definition naive_delta_v_sum :: "MultiStageRocket \<Rightarrow> real result" where
  "naive_delta_v_sum r = sum_delta_v (stages r)"

text \<open>The value of the loop of \<open>get_total_delta_v\<close> for payload \<open>P\<close>, as one sum.\<close>

definition staged_sum :: "real \<Rightarrow> Stage list \<Rightarrow> real" where
  "staged_sum P sts =
     (\<Sum>i<length sts. GRAVITY * isp_vac (propellant (sts ! i))
        * ln ((P + sum_list (map total_mass (drop i sts)))
              / (P + sum_list (map total_mass (drop (Suc i) sts)))))"

text \<open>
  The walk as the specification words it, to compare \<open>get_total_delta_v\<close> with: the
  stages in burn order, each one burning its propellant by the rocket equation on the
  running vehicle mass, which decreases by the stage's propellant mass during the burn
  (the dry mass is still attached at burnout) and then by its dry mass at separation.
\<close>

fun burn_then_separate_loop :: "real \<Rightarrow> real \<Rightarrow> Stage list \<Rightarrow> real result" where
  "burn_then_separate_loop delta_v current_mass [] = Inr delta_v"
| "burn_then_separate_loop delta_v current_mass (stage # rest) =
     (let burnout_mass = current_mass - propellant_mass stage
      in case calculate_delta_v current_mass burnout_mass (isp_vac (propellant stage)) of
           Inl e \<Rightarrow> Inl e
         | Inr dv \<Rightarrow>
             burn_then_separate_loop (delta_v + dv) (burnout_mass - dry_mass stage) rest)"

definition burn_then_separate_delta_v :: "MultiStageRocket \<Rightarrow> real result" where
  "burn_then_separate_delta_v r = burn_then_separate_loop 0 (get_total_mass r) (stages r)"

text \<open>The value of that walk for payload \<open>P\<close>, as one sum.\<close>

fun burn_sum :: "real \<Rightarrow> Stage list \<Rightarrow> real" where
  "burn_sum P [] = 0"
| "burn_sum P (s # rest) =
     GRAVITY * isp_vac (propellant s)
       * ln ((P + total_mass s + sum_list (map total_mass rest))
             / (P + dry_mass s + sum_list (map total_mass rest)))
     + burn_sum P rest"

text \<open>
  The thrust-to-weight ratio that \<open>_estimate_altitude\<close> computes:
  \<open>first_stage_thrust_sl / (initial_mass * GRAVITY)\<close>, the thrust being 0 for a rocket
  without stages.
\<close>

definition liftoff_twr :: "RocketOptimizer \<Rightarrow> real" where
  "liftoff_twr opt =
     (case stages (rocket opt) of [] \<Rightarrow> 0 | s # rest \<Rightarrow> thrust_sl s)
     / (get_total_mass (rocket opt) * GRAVITY)"

section \<open>Basic facts about the model\<close>

lemma and_then_Inr [simp]: "and_then (Inr x) f = f x"
  by (simp add: and_then_def)

lemma and_then_Inl [simp]: "and_then (Inl e) f = Inl e"
  by (simp add: and_then_def)

lemma term3_pos:
  fixes g eps :: real
  assumes "1 < g" "1 \<le> eps"
  shows "0 < 1 - (1 / eps) powr (g - 1) / g"
proof -
  have "\<bar>1 / eps\<bar> \<le> 1"
    using assms by simp
  then have "(1 / eps) powr (g - 1) \<le> 1"
    using assms by (intro powr_le1) simp_all
  then have "(1 / eps) powr (g - 1) / g < 1"
    using assms by (simp add: divide_less_eq)
  then show ?thesis by simp
qed

lemma calculate_thrust_coefficient_value:
  assumes "1 < g" "1 \<le> eps"
  shows "calculate_thrust_coefficient eps g =
           Inr (sqrt (2 * g ^ 2 / (g - 1)) * (2 / (g + 1)) powr ((g + 1) / (g - 1))
                * sqrt (1 - (1 / eps) powr (g - 1) / g) * (98 / 100))"
proof -
  have a: "0 \<le> 2 * g ^ 2 / (g - 1)" using assms by simp
  have b: "0 \<le> 1 - (1 / eps) powr (g - 1) / g" using term3_pos [OF assms] by simp
  have c: "0 < 2 / (g + 1)" using assms by simp
  have d: "g - 1 \<noteq> 0" "g + 1 \<noteq> 0" "eps \<noteq> 0" "g \<noteq> 0" "0 < 1 / eps" using assms by simp_all
  show ?thesis
    unfolding calculate_thrust_coefficient_def py_div_def py_sqrt_def py_pow_def
    using a b c d by (simp add: not_less)
qed

lemma thrust_coefficient_pos:
  assumes "1 < g" "1 \<le> eps"
  shows "\<exists>Cf. calculate_thrust_coefficient eps g = Inr Cf \<and> 0 < Cf"
proof -
  have "0 < sqrt (2 * g ^ 2 / (g - 1))" using assms by simp
  moreover have "0 < (2 / (g + 1)) powr ((g + 1) / (g - 1))" using assms by simp
  moreover have "0 < sqrt (1 - (1 / eps) powr (g - 1) / g)"
    using term3_pos [OF assms] by simp
  ultimately have "0 < sqrt (2 * g ^ 2 / (g - 1)) * (2 / (g + 1)) powr ((g + 1) / (g - 1))
                * sqrt (1 - (1 / eps) powr (g - 1) / g) * (98 / 100)"
    by simp
  then show ?thesis
    unfolding calculate_thrust_coefficient_value [OF assms] by blast
qed

lemma tan_radians15_pos: "0 < tan radians15"
  unfolding radians15_def by (rule tan_gt_zero) (use pi_gt_zero in auto)


lemma expansion_ratio_pos: "0 < calculate_optimal_expansion_ratio nm g"
  by (simp add: calculate_optimal_expansion_ratio_def)

lemma calculate_engine_parameters_value:
  assumes cf: "calculate_thrust_coefficient 20 (gamma (propellant s)) = Inr Cf" "0 < Cf"
    and pc: "0 < chamber_pressure (propellant s)"
    and tv: "0 \<le> thrust_vac s"
  shows "calculate_engine_parameters s =
           Inr (s\<lparr> throat_area := thrust_vac s / (Cf * chamber_pressure (propellant s)),
                  throat_diameter :=
                    2 * sqrt (thrust_vac s / (Cf * chamber_pressure (propellant s)) / pi),
                  expansion_ratio :=
                    calculate_optimal_expansion_ratio (name s) (gamma (propellant s)),
                  exit_area :=
                    thrust_vac s / (Cf * chamber_pressure (propellant s))
                    * calculate_optimal_expansion_ratio (name s) (gamma (propellant s)),
                  exit_diameter :=
                    2 * sqrt (thrust_vac s / (Cf * chamber_pressure (propellant s))
                              * calculate_optimal_expansion_ratio (name s) (gamma (propellant s))
                              / pi),
                  nozzle_length :=
                    (8 / 10) *
                    ((2 * sqrt (thrust_vac s / (Cf * chamber_pressure (propellant s))
                                * calculate_optimal_expansion_ratio (name s) (gamma (propellant s))
                                / pi)
                      - 2 * sqrt (thrust_vac s / (Cf * chamber_pressure (propellant s)) / pi))
                     / (2 * tan radians15)) \<rparr>)"
proof -
  let ?ta = "thrust_vac s / (Cf * chamber_pressure (propellant s))"
  let ?er = "calculate_optimal_expansion_ratio (name s) (gamma (propellant s))"
  have nz: "Cf * chamber_pressure (propellant s) \<noteq> 0" using cf pc by simp
  have ta: "0 \<le> ?ta" using cf pc tv by simp
  have d: "py_div (thrust_vac s) (Cf * chamber_pressure (propellant s)) = Inr ?ta"
    unfolding py_div_def using nz by (simp only: if_False)
  have "0 \<le> ?ta / pi"
    using ta pi_gt_zero by (rule divide_nonneg_pos)
  then have s1: "py_sqrt (?ta / pi) = Inr (sqrt (?ta / pi))"
    unfolding py_sqrt_def by (simp only: not_less [symmetric] if_False)
  have "0 \<le> ?er"
    using expansion_ratio_pos [of "name s" "gamma (propellant s)"] by (rule less_imp_le)
  with ta have "0 \<le> ?ta * ?er"
    by (rule mult_nonneg_nonneg)
  then have "0 \<le> ?ta * ?er / pi"
    using pi_gt_zero by (rule divide_nonneg_pos)
  then have s2: "py_sqrt (?ta * ?er / pi) = Inr (sqrt (?ta * ?er / pi))"
    unfolding py_sqrt_def by (simp only: not_less [symmetric] if_False)
  show ?thesis
    unfolding calculate_engine_parameters_def Let_def cf(1) and_then_Inr d s1 s2
    by (rule refl)
qed


lemma and_then_eq_Inr: "and_then m f = Inr y \<longleftrightarrow> (\<exists>x. m = Inr x \<and> f x = Inr y)"
  by (cases m) (simp_all add: and_then_def)

lemma py_div_eq_Inr: "py_div a b = Inr q \<longleftrightarrow> b \<noteq> 0 \<and> q = a / b"
  by (auto simp: py_div_def)

lemma py_sqrt_eq_Inr: "py_sqrt x = Inr r \<longleftrightarrow> 0 \<le> x \<and> r = sqrt x"
  by (auto simp: py_sqrt_def)

lemma py_log_eq_Inr: "py_log x = Inr l \<longleftrightarrow> 0 < x \<and> l = ln x"
  by (auto simp: py_log_def)

lemma catalog_props:
  assumes "PROPELLANT_COMBINATIONS k = Some p"
  shows "1 < gamma p" "0 < chamber_pressure p" "0 < isp_vac p"
  using assms
  by (auto simp: PROPELLANT_COMBINATIONS_def LOX_LH2_def LOX_RP1_def HTPB_def split: if_splits)

lemma catalog_default: "PROPELLANT_COMBINATIONS ''LOX/LH2'' = Some LOX_LH2"
  by (simp add: PROPELLANT_COMBINATIONS_def)

lemma stage_propellant_props:
  "1 < gamma (stage_propellant ptype)" "0 < chamber_pressure (stage_propellant ptype)"
  "0 < isp_vac (stage_propellant ptype)"
  using catalog_props [of ptype] catalog_props [OF catalog_default]
  by (auto simp: stage_propellant_def split: option.splits)

lemma lookup_propellant:
  "(if ptype \<in> dom PROPELLANT_COMBINATIONS
    then dict_get PROPELLANT_COMBINATIONS ptype
    else dict_get PROPELLANT_COMBINATIONS ''LOX/LH2'') = Inr (stage_propellant ptype)"
  by (auto simp: dict_get_def stage_propellant_def catalog_default dom_def split: option.splits)

lemma Stage_init_unfold:
  assumes "dry \<noteq> 0"
  shows "Stage_init nm dry prop tsl tvac bt dia len ptype =
     calculate_engine_parameters
       \<lparr> name = nm, dry_mass = dry, propellant_mass = prop, thrust_sl = tsl,
         thrust_vac = tvac, burn_time = bt, diameter = dia, stage_length = len,
         propellant = stage_propellant ptype, mass_ratio = (dry + prop) / dry,
         total_mass = dry + prop,
         propellant_flow_rate = (if 0 < bt then prop / bt else 0), throat_area = 0,
         throat_diameter = 0, expansion_ratio = 0, exit_area = 0, exit_diameter = 0,
         nozzle_length = 0 \<rparr>"
  unfolding Stage_init_def lookup_propellant and_then_Inr
  using assms by (simp add: py_div_def)

lemma Stage_init_dry_zero: "Stage_init nm 0 prop tsl tvac bt dia len ptype = Inl ZeroDivisionError"
  unfolding Stage_init_def lookup_propellant and_then_Inr
  by (simp add: py_div_def)


lemma Stage_init_succeeds:
  assumes "dry \<noteq> 0" "0 \<le> tvac"
  obtains s Cf where "Stage_init nm dry prop tsl tvac bt dia len ptype = Inr s"
    and "calculate_thrust_coefficient 20 (gamma (stage_propellant ptype)) = Inr Cf" and "0 < Cf"
    and "name s = nm" and "dry_mass s = dry" and "propellant_mass s = prop"
    and "thrust_sl s = tsl" and "thrust_vac s = tvac" and "burn_time s = bt"
    and "diameter s = dia" and "stage_length s = len"
    and "propellant s = stage_propellant ptype" and "mass_ratio s = (dry + prop) / dry"
    and "total_mass s = dry + prop"
    and "propellant_flow_rate s = (if 0 < bt then prop / bt else 0)"
    and "throat_area s = tvac / (Cf * chamber_pressure (stage_propellant ptype))"
    and "expansion_ratio s = calculate_optimal_expansion_ratio nm (gamma (stage_propellant ptype))"
    and "exit_area s = throat_area s * expansion_ratio s"
proof -
  let ?s0 = "\<lparr> name = nm, dry_mass = dry, propellant_mass = prop, thrust_sl = tsl,
         thrust_vac = tvac, burn_time = bt, diameter = dia, stage_length = len,
         propellant = stage_propellant ptype, mass_ratio = (dry + prop) / dry,
         total_mass = dry + prop,
         propellant_flow_rate = (if 0 < bt then prop / bt else 0), throat_area = 0,
         throat_diameter = 0, expansion_ratio = 0, exit_area = 0, exit_diameter = 0,
         nozzle_length = 0 \<rparr>"
  obtain Cf where cf: "calculate_thrust_coefficient 20 (gamma (stage_propellant ptype)) = Inr Cf"
      and pos: "0 < Cf"
    using thrust_coefficient_pos [of "gamma (stage_propellant ptype)" 20]
      stage_propellant_props(1) [of ptype] by auto
  have h1: "calculate_thrust_coefficient 20 (gamma (propellant ?s0)) = Inr Cf"
    using cf by simp
  have h2: "0 < chamber_pressure (propellant ?s0)"
    using stage_propellant_props(2) [of ptype] by simp
  have h3: "0 \<le> thrust_vac ?s0"
    using assms(2) by simp
  note v = calculate_engine_parameters_value [OF h1 pos h2 h3]
  define s1 where "s1 = projr (calculate_engine_parameters ?s0)"
  have eq: "Stage_init nm dry prop tsl tvac bt dia len ptype = Inr s1"
    unfolding Stage_init_unfold [OF assms(1)] s1_def v by simp
  show thesis
    by (rule that [OF eq cf pos]) (simp_all add: s1_def v)
qed


lemma calculate_engine_parameters_negative_thrust:
  assumes "1 < gamma (propellant s)" "0 < chamber_pressure (propellant s)" "thrust_vac s < 0"
  shows "calculate_engine_parameters s = Inl ValueError"
proof -
  obtain Cf where cf: "calculate_thrust_coefficient 20 (gamma (propellant s)) = Inr Cf"
      and pos: "0 < Cf"
    using thrust_coefficient_pos [of "gamma (propellant s)" 20] assms(1) by auto
  let ?ta = "thrust_vac s / (Cf * chamber_pressure (propellant s))"
  have nz: "Cf * chamber_pressure (propellant s) \<noteq> 0" using pos assms(2) by simp
  have d: "py_div (thrust_vac s) (Cf * chamber_pressure (propellant s)) = Inr ?ta"
    unfolding py_div_def using nz by (simp only: if_False)
  have "0 < Cf * chamber_pressure (propellant s)" using pos assms(2) by simp
  with assms(3) have "?ta < 0" by (rule divide_neg_pos)
  then have "?ta / pi < 0" using pi_gt_zero by (rule divide_neg_pos)
  then have s1: "py_sqrt (?ta / pi) = Inl ValueError"
    unfolding py_sqrt_def by (simp only: if_True)
  show ?thesis
    unfolding calculate_engine_parameters_def Let_def cf and_then_Inr d s1 and_then_Inl
    by (rule refl)
qed

lemma Stage_init_negative_thrust:
  assumes "dry \<noteq> 0" "tvac < 0"
  shows "Stage_init nm dry prop tsl tvac bt dia len ptype = Inl ValueError"
  unfolding Stage_init_unfold [OF assms(1)]
  by (rule calculate_engine_parameters_negative_thrust)
     (use assms(2) stage_propellant_props [of ptype] in simp_all)

lemma Stage_init_Inr_iff:
  "(\<exists>s. Stage_init nm dry prop tsl tvac bt dia len ptype = Inr s) \<longleftrightarrow> dry \<noteq> 0 \<and> 0 \<le> tvac"
proof
  assume "\<exists>s. Stage_init nm dry prop tsl tvac bt dia len ptype = Inr s"
  then obtain s where s: "Stage_init nm dry prop tsl tvac bt dia len ptype = Inr s" ..
  have d: "dry \<noteq> 0" using s Stage_init_dry_zero [of nm "prop" tsl tvac bt dia len ptype] by auto
  have "0 \<le> tvac"
    using s Stage_init_negative_thrust [OF d, of tvac nm "prop" tsl bt dia len ptype]
    by (cases "tvac < 0") auto
  with d show "dry \<noteq> 0 \<and> 0 \<le> tvac" ..
next
  assume "dry \<noteq> 0 \<and> 0 \<le> tvac"
  then have d: "dry \<noteq> 0" and t: "0 \<le> tvac" by simp_all
  show "\<exists>s. Stage_init nm dry prop tsl tvac bt dia len ptype = Inr s"
  proof (rule Stage_init_succeeds [OF d t, of nm "prop" tsl bt dia len ptype])
    fix s
    assume "Stage_init nm dry prop tsl tvac bt dia len ptype = Inr s"
    then show ?thesis by (rule exI)
  qed
qed

lemma unknown_propellant:
  assumes "ptype \<notin> {''LOX/LH2'', ''LOX/RP1'', ''HTPB''}"
  shows "stage_propellant ptype = LOX_LH2"
  using assms by (simp add: stage_propellant_def PROPELLANT_COMBINATIONS_def)

lemma stage_propellant_default: "stage_propellant ''LOX/LH2'' = LOX_LH2"
  by (simp add: stage_propellant_def PROPELLANT_COMBINATIONS_def)

lemma Stage_init_depends_on_propellant:
  "stage_propellant p1 = stage_propellant p2 \<Longrightarrow>
     Stage_init nm dry prop tsl tvac bt dia len p1 = Stage_init nm dry prop tsl tvac bt dia len p2"
  unfolding Stage_init_def lookup_propellant by simp

section \<open>Stage construction and the propellant catalog\<close>

text \<open>
  Claim C10. A stage constructed with a propellant type that is not a key of the catalog
  is the stage constructed with \<open>LOX/LH2\<close>: the lookup does not raise, and when the
  numeric inputs allow a stage at all (non-zero dry mass, non-negative vacuum thrust), the
  stage carries the LOX/LH2 entry, and its delta-v (vacuum Isp 450), its flow rate and its
  nozzle areas (gamma 1.26, chamber pressure 6.9 MPa) are computed from that entry.
\<close>

theorem unknown_propellant_type_defaults_to_LOX_LH2:
  assumes "ptype \<notin> {''LOX/LH2'', ''LOX/RP1'', ''HTPB''}"
  shows "Stage_init nm dry prop tsl tvac bt dia len ptype
           = Stage_init nm dry prop tsl tvac bt dia len ''LOX/LH2''
         \<and> (dry \<noteq> 0 \<and> 0 \<le> tvac \<longrightarrow>
            (\<exists>s Cf. Stage_init nm dry prop tsl tvac bt dia len ptype = Inr s
               \<and> propellant s = LOX_LH2
               \<and> get_delta_v s = and_then (py_log ((dry + prop) / dry))
                                    (\<lambda>l. Inr (450 * GRAVITY * l))
               \<and> propellant_flow_rate s = (if 0 < bt then prop / bt else 0)
               \<and> calculate_thrust_coefficient 20 (126 / 100) = Inr Cf
               \<and> throat_area s = tvac / (Cf * 6900000)
               \<and> exit_area s = throat_area s * calculate_optimal_expansion_ratio nm (126 / 100)))"
proof (intro conjI impI)
  have p: "stage_propellant ptype = LOX_LH2"
    using assms by (rule unknown_propellant)
  show "Stage_init nm dry prop tsl tvac bt dia len ptype
          = Stage_init nm dry prop tsl tvac bt dia len ''LOX/LH2''"
    by (rule Stage_init_depends_on_propellant) (simp add: p stage_propellant_default)
  assume ok: "dry \<noteq> 0 \<and> 0 \<le> tvac"
  then have d: "dry \<noteq> 0" and t: "0 \<le> tvac" by simp_all
  show "\<exists>s Cf. Stage_init nm dry prop tsl tvac bt dia len ptype = Inr s
               \<and> propellant s = LOX_LH2
               \<and> get_delta_v s = and_then (py_log ((dry + prop) / dry))
                                    (\<lambda>l. Inr (450 * GRAVITY * l))
               \<and> propellant_flow_rate s = (if 0 < bt then prop / bt else 0)
               \<and> calculate_thrust_coefficient 20 (126 / 100) = Inr Cf
               \<and> throat_area s = tvac / (Cf * 6900000)
               \<and> exit_area s = throat_area s * calculate_optimal_expansion_ratio nm (126 / 100)"
  proof (rule Stage_init_succeeds [OF d t, of nm "prop" tsl bt dia len ptype])
    fix s Cf
    assume s: "Stage_init nm dry prop tsl tvac bt dia len ptype = Inr s"
      and cf: "calculate_thrust_coefficient 20 (gamma (stage_propellant ptype)) = Inr Cf"
      and f: "propellant s = stage_propellant ptype" "mass_ratio s = (dry + prop) / dry"
        "propellant_flow_rate s = (if 0 < bt then prop / bt else 0)"
        "throat_area s = tvac / (Cf * chamber_pressure (stage_propellant ptype))"
        "expansion_ratio s = calculate_optimal_expansion_ratio nm (gamma (stage_propellant ptype))"
        "exit_area s = throat_area s * expansion_ratio s"
    have dv: "get_delta_v s
                = and_then (py_log ((dry + prop) / dry)) (\<lambda>l. Inr (450 * GRAVITY * l))"
      by (simp add: get_delta_v_def f p LOX_LH2_def)
    show ?thesis
      using s cf f dv by (intro exI [of _ s] exI [of _ Cf]) (simp add: p LOX_LH2_def)
  qed
qed

theorem unknown_propellant_type_witness:
  "\<exists>s. Stage_init ''Stage 1'' 4000 90000 0 934000 397 (37 / 10) (126 / 10) ''Methalox'' = Inr s
       \<and> propellant s = LOX_LH2"
proof -
  have h: "''Methalox'' \<notin> {''LOX/LH2'', ''LOX/RP1'', ''HTPB''}" by simp
  have ok: "(4000::real) \<noteq> 0 \<and> (0::real) \<le> 934000" by simp
  obtain s where "Stage_init ''Stage 1'' 4000 90000 0 934000 397 (37 / 10) (126 / 10) ''Methalox'' = Inr s"
      and "propellant s = LOX_LH2"
    using unknown_propellant_type_defaults_to_LOX_LH2
            [OF h, of "''Stage 1''" 4000 90000 0 934000 397 "37 / 10" "126 / 10",
             THEN conjunct2, THEN mp, OF ok]
    by (elim exE conjE)
  then show ?thesis by (intro exI conjI)
qed

section \<open>Stage delta-v and nozzle sizing\<close>

text \<open>
  Claim C2, as amended. \<open>get_delta_v\<close> has no guard: for a stage whose mass ratio is
  positive it returns \<open>isp_vac * g0 * ln mass_ratio\<close>, and for a mass ratio of zero or
  below \<open>math.log\<close> raises ValueError, which the method lets through. It never turns
  the undefined logarithm into 0.
\<close>

theorem get_delta_v_domain:
  "get_delta_v s =
     (if mass_ratio s \<le> 0 then Inl ValueError
      else Inr (isp_vac (propellant s) * GRAVITY * ln (mass_ratio s)))"
  by (simp add: get_delta_v_def py_log_def)

text \<open>
  The claim as stated fails: the stage with dry mass 1 and propellant mass -1 has mass
  ratio 0, and its delta-v is a ValueError, not 0.
\<close>

theorem get_delta_v_not_guarded_counterexample:
  "and_then (Stage_init ''Stage'' 1 (- 1) 0 0 1 1 1 ''LOX/LH2'') (\<lambda>s. Inr (mass_ratio s)) = Inr 0
   \<and> and_then (Stage_init ''Stage'' 1 (- 1) 0 0 1 1 1 ''LOX/LH2'') get_delta_v = Inl ValueError"
proof -
  have d: "(1::real) \<noteq> 0" and t: "(0::real) \<le> 0" by simp_all
  show ?thesis
  proof (rule Stage_init_succeeds [OF d t, of "''Stage''" "- 1" 0 1 1 1 "''LOX/LH2''"])
    fix s
    assume s: "Stage_init ''Stage'' 1 (- 1) 0 0 1 1 1 ''LOX/LH2'' = Inr s"
      and m: "mass_ratio s = (1 + - 1) / 1"
    have "get_delta_v s = Inl ValueError"
      using m by (simp add: get_delta_v_def py_log_def)
    then show ?thesis
      using m by (simp add: s)
  qed
qed

lemma thrust_coefficient_strict_mono:
  fixes g e1 e2 :: real
  assumes g: "1 < g" and e: "1 \<le> e1" "e1 < e2"
    and c1: "calculate_thrust_coefficient e1 g = Inr c1"
    and c2: "calculate_thrust_coefficient e2 g = Inr c2"
  shows "c1 < c2"
proof -
  let ?A = "sqrt (2 * g ^ 2 / (g - 1)) * (2 / (g + 1)) powr ((g + 1) / (g - 1))"
  let ?t = "\<lambda>e. 1 - (1 / e) powr (g - 1) / g"
  have e2: "1 \<le> e2" using e by simp
  have v1: "c1 = ?A * sqrt (?t e1) * (98 / 100)"
    using c1 calculate_thrust_coefficient_value [OF g e(1)] by simp
  have v2: "c2 = ?A * sqrt (?t e2) * (98 / 100)"
    using c2 calculate_thrust_coefficient_value [OF g e2] by simp
  have A: "0 < ?A" using g by simp
  have "1 / e2 < 1 / e1" using e by (simp add: frac_less2)
  moreover have "0 \<le> 1 / e2" using e2 by simp
  moreover have "0 < g - 1" using g by simp
  ultimately have "(1 / e2) powr (g - 1) < (1 / e1) powr (g - 1)"
    by (intro powr_less_mono2)
  then have "(1 / e2) powr (g - 1) / g < (1 / e1) powr (g - 1) / g"
    using g by (simp add: divide_strict_right_mono)
  then have "?t e1 < ?t e2" by simp
  then have "sqrt (?t e1) < sqrt (?t e2)" by simp
  then have "?A * sqrt (?t e1) < ?A * sqrt (?t e2)"
    using A by (rule mult_strict_left_mono)
  then have "?A * sqrt (?t e1) * (98 / 100) < ?A * sqrt (?t e2) * (98 / 100)"
    by (rule mult_strict_right_mono) simp
  then show ?thesis unfolding v1 v2 .
qed

text \<open>
  Claim C4, as amended. For every stage that \<open>Stage.__init__\<close> builds, the thrust
  coefficient is computed from gamma and the fixed expansion ratio 20 (the source's
  initial guess), with the factor 0.98; the throat area is
  \<open>thrust_vac / (Cf * chamber_pressure)\<close>. The expansion ratio chosen by the stage's name
  (10, 40, 80 or 25) enters only afterwards, in \<open>exit_area = throat_area * expansion_ratio\<close>.
\<close>

theorem nozzle_sizing_uses_fixed_expansion_ratio:
  assumes "Stage_init nm dry prop tsl tvac bt dia len ptype = Inr s"
  shows "\<exists>Cf. calculate_thrust_coefficient 20 (gamma (propellant s)) = Inr Cf
           \<and> Cf = sqrt (2 * (gamma (propellant s)) ^ 2 / (gamma (propellant s) - 1))
                  * (2 / (gamma (propellant s) + 1))
                      powr ((gamma (propellant s) + 1) / (gamma (propellant s) - 1))
                  * sqrt (1 - (1 / 20) powr (gamma (propellant s) - 1) / gamma (propellant s))
                  * (98 / 100)
           \<and> throat_area s = thrust_vac s / (Cf * chamber_pressure (propellant s))
           \<and> expansion_ratio s =
                 (if contains (lower (name s)) ''first'' \<or> contains (lower (name s)) ''booster''
                  then 10
                  else if contains (lower (name s)) ''second'' then 40
                  else if contains (lower (name s)) ''third'' \<or> contains (lower (name s)) ''upper''
                  then 80
                  else 25)
           \<and> exit_area s = throat_area s * expansion_ratio s"
proof -
  have "\<exists>s. Stage_init nm dry prop tsl tvac bt dia len ptype = Inr s"
    using assms by (rule exI)
  then have d: "dry \<noteq> 0" and t: "0 \<le> tvac"
    unfolding Stage_init_Inr_iff by simp_all
  show ?thesis
  proof (rule Stage_init_succeeds [OF d t, of nm "prop" tsl bt dia len ptype])
    fix s' Cf
    assume s': "Stage_init nm dry prop tsl tvac bt dia len ptype = Inr s'"
      and cf: "calculate_thrust_coefficient 20 (gamma (stage_propellant ptype)) = Inr Cf"
      and f: "name s' = nm" "thrust_vac s' = tvac" "propellant s' = stage_propellant ptype"
        "throat_area s' = tvac / (Cf * chamber_pressure (stage_propellant ptype))"
        "expansion_ratio s'
           = calculate_optimal_expansion_ratio nm (gamma (stage_propellant ptype))"
        "exit_area s' = throat_area s' * expansion_ratio s'"
    have eq: "s' = s" using s' assms by simp
    have g: "1 < gamma (stage_propellant ptype)" by (rule stage_propellant_props(1))
    have v: "Cf = sqrt (2 * (gamma (stage_propellant ptype)) ^ 2 / (gamma (stage_propellant ptype) - 1))
                  * (2 / (gamma (stage_propellant ptype) + 1))
                      powr ((gamma (stage_propellant ptype) + 1) / (gamma (stage_propellant ptype) - 1))
                  * sqrt (1 - (1 / 20) powr (gamma (stage_propellant ptype) - 1)
                              / gamma (stage_propellant ptype))
                  * (98 / 100)"
      using cf calculate_thrust_coefficient_value [OF g, of 20] by simp
    show ?thesis
      using cf v f unfolding eq
      by (intro exI [of _ Cf]) (simp add: calculate_optimal_expansion_ratio_def)
  qed
qed


lemma first_stage_name: "contains (lower ''First Stage'') ''first''"
  by code_simp

lemma stage_propellant_RP1: "stage_propellant ''LOX/RP1'' = LOX_RP1"
  by (simp add: stage_propellant_def PROPELLANT_COMBINATIONS_def)

theorem nozzle_sizing_witness:
  "\<exists>s Cf. Stage_init ''First Stage'' 25000 385000 7600000 8200000 162 (37 / 10) (412 / 10)
             ''LOX/RP1'' = Inr s
          \<and> calculate_thrust_coefficient 20 (122 / 100) = Inr Cf
          \<and> throat_area s = 8200000 / (Cf * 7600000)
          \<and> expansion_ratio s = 10
          \<and> exit_area s = throat_area s * 10"
proof -
  have d: "(25000::real) \<noteq> 0" and t: "(0::real) \<le> 8200000" by simp_all
  show ?thesis
  proof (rule Stage_init_succeeds [OF d t, of "''First Stage''" 385000 7600000 162 "37 / 10"
           "412 / 10" "''LOX/RP1''"])
    fix s
    assume s: "Stage_init ''First Stage'' 25000 385000 7600000 8200000 162 (37 / 10) (412 / 10)
                 ''LOX/RP1'' = Inr s"
      and f: "name s = ''First Stage''" "thrust_vac s = 8200000"
        "propellant s = stage_propellant ''LOX/RP1''"
    obtain Cf where "calculate_thrust_coefficient 20 (gamma (propellant s)) = Inr Cf"
        and "throat_area s = thrust_vac s / (Cf * chamber_pressure (propellant s))"
        and "expansion_ratio s =
                 (if contains (lower (name s)) ''first'' \<or> contains (lower (name s)) ''booster''
                  then 10
                  else if contains (lower (name s)) ''second'' then 40
                  else if contains (lower (name s)) ''third'' \<or> contains (lower (name s)) ''upper''
                  then 80
                  else 25)"
        and "exit_area s = throat_area s * expansion_ratio s"
      using nozzle_sizing_uses_fixed_expansion_ratio [OF s] by (elim exE conjE)
    then show ?thesis
      using s by (intro exI [of _ s] exI [of _ Cf])
        (simp add: f first_stage_name stage_propellant_RP1 LOX_RP1_def)
  qed
qed

text \<open>
  The claim as stated fails on the first stage of the source's own two-stage rocket: its
  chosen expansion ratio is 10, and its throat area is not the one that a thrust
  coefficient at expansion ratio 10 gives.
\<close>

theorem thrust_coefficient_ignores_chosen_ratio_counterexample:
  "and_then (Stage_init ''First Stage'' 25000 385000 7600000 8200000 162 (37 / 10) (412 / 10)
               ''LOX/RP1'') (\<lambda>s. Inr (expansion_ratio s)) = Inr 10
   \<and> and_then (Stage_init ''First Stage'' 25000 385000 7600000 8200000 162 (37 / 10) (412 / 10)
                 ''LOX/RP1'') (\<lambda>s. Inr (throat_area s))
       \<noteq> and_then (calculate_thrust_coefficient 10 (gamma LOX_RP1))
             (\<lambda>Cf. py_div 8200000 (Cf * chamber_pressure LOX_RP1))"
proof -
  have d: "(25000::real) \<noteq> 0" and t: "(0::real) \<le> 8200000" by simp_all
  have g: "1 < gamma LOX_RP1" by (simp add: LOX_RP1_def)
  show ?thesis
  proof (rule Stage_init_succeeds [OF d t, of "''First Stage''" 385000 7600000 162 "37 / 10"
           "412 / 10" "''LOX/RP1''"])
    fix s Cf
    assume s: "Stage_init ''First Stage'' 25000 385000 7600000 8200000 162 (37 / 10) (412 / 10)
                 ''LOX/RP1'' = Inr s"
      and cf: "calculate_thrust_coefficient 20 (gamma (stage_propellant ''LOX/RP1'')) = Inr Cf"
      and pos: "0 < Cf"
      and ta: "throat_area s = 8200000 / (Cf * chamber_pressure (stage_propellant ''LOX/RP1''))"
      and er: "expansion_ratio s
                 = calculate_optimal_expansion_ratio ''First Stage''
                     (gamma (stage_propellant ''LOX/RP1''))"
    obtain Cf10 where cf10: "calculate_thrust_coefficient 10 (gamma LOX_RP1) = Inr Cf10"
        and pos10: "0 < Cf10"
      using thrust_coefficient_pos [OF g, of 10] by auto
    have cf20: "calculate_thrust_coefficient 20 (gamma LOX_RP1) = Inr Cf"
      using cf by (simp add: stage_propellant_RP1)
    have lt: "Cf10 < Cf"
      by (rule thrust_coefficient_strict_mono [OF g _ _ cf10 cf20]) simp_all
    have pc: "chamber_pressure LOX_RP1 = 7600000" by (simp add: LOX_RP1_def)
    have "Cf10 * 7600000 \<noteq> 0" using pos10 by simp
    then have rhs: "and_then (calculate_thrust_coefficient 10 (gamma LOX_RP1))
             (\<lambda>Cf. py_div 8200000 (Cf * chamber_pressure LOX_RP1))
            = Inr (8200000 / (Cf10 * 7600000))"
      by (simp add: cf10 pc py_div_def)
    have "(8200000::real) / (Cf * 7600000) \<noteq> 8200000 / (Cf10 * 7600000)"
      using lt pos pos10 by (simp add: field_simps)
    then have ne: "throat_area s \<noteq> 8200000 / (Cf10 * 7600000)"
      by (simp add: ta stage_propellant_RP1 pc)
    have "expansion_ratio s = 10"
      by (simp add: er calculate_optimal_expansion_ratio_def first_stage_name)
    then show ?thesis
      unfolding s rhs and_then_Inr using ne by simp
  qed
qed

section \<open>Tank pressure in the wall thickness\<close>

lemma no_LOX_in_names:
  "\<not> contains ''Liquid Oxygen/Liquid Hydrogen'' ''LOX''"
  "\<not> contains ''Liquid Oxygen/RP-1'' ''LOX''"
  "\<not> contains ''HTPB Solid Propellant'' ''LOX''"
  by code_simp+

lemma tank_pressure_of_catalog:
  "tank_pressure s = 200000" if "propellant s = stage_propellant ptype"
proof -
  have "prop_name (stage_propellant ptype) \<in>
          {''Liquid Oxygen/Liquid Hydrogen'', ''Liquid Oxygen/RP-1'', ''HTPB Solid Propellant''}"
    by (auto simp: stage_propellant_def PROPELLANT_COMBINATIONS_def LOX_LH2_def LOX_RP1_def
          HTPB_def)
  then have "\<not> contains (prop_name (propellant s)) ''LOX''"
    using no_LOX_in_names that by auto
  then show ?thesis by (simp add: tank_pressure_def)
qed

text \<open>
  Claim C3. The claim wants 300000 Pa for the LOX/LH2 and LOX/RP1 entries. The test in
  \<open>_calculate_wall_thickness\<close> looks for \<open>LOX\<close> in the entry's display name, and no
  name in the catalog contains it (they spell out \<open>Liquid Oxygen\<close>), so the code takes
  200000 Pa for every stage. Here for a LOX/LH2 upper stage.
\<close>

theorem tank_pressure_cryogenic_is_2e5:
  "and_then (Stage_init ''Stage 2'' 2400 21600 0 211896 450 (333 / 100) (1665 / 100) ''LOX/LH2'')
     (\<lambda>s. Inr (tank_pressure s)) = Inr 200000"
proof -
  have d: "(2400::real) \<noteq> 0" and t: "(0::real) \<le> 211896" by simp_all
  show ?thesis
  proof (rule Stage_init_succeeds [OF d t, of "''Stage 2''" 21600 0 450 "333 / 100"
           "1665 / 100" "''LOX/LH2''"])
    fix s
    assume s: "Stage_init ''Stage 2'' 2400 21600 0 211896 450 (333 / 100) (1665 / 100)
                 ''LOX/LH2'' = Inr s"
      and p: "propellant s = stage_propellant ''LOX/LH2''"
    show ?thesis
      unfolding s and_then_Inr using tank_pressure_of_catalog [OF p] by simp
  qed
qed

section \<open>Total delta-v of a multistage rocket\<close>

lemma foldl_add: "foldl (\<lambda>t x. t + f x) a xs = a + sum_list (map f xs)" for a :: real
  by (induction xs arbitrary: a) simp_all

lemma get_total_mass_sum:
  "get_total_mass r = payload_mass r + sum_list (map total_mass (stages r))"
  by (simp add: get_total_mass_def foldl_add)

lemma staged_sum_Cons:
  "staged_sum P (s # rest) =
     GRAVITY * isp_vac (propellant s)
       * ln ((P + total_mass s + sum_list (map total_mass rest))
             / (P + sum_list (map total_mass rest)))
     + staged_sum P rest"
  by (simp add: staged_sum_def sum.lessThan_Suc_shift add.assoc del: sum.lessThan_Suc)

lemma sum_list_total_pos:
  assumes "\<forall>s\<in>set sts. 0 < total_mass s"
  shows "0 \<le> sum_list (map total_mass sts)"
  using assms by (induction sts) (auto intro: add_nonneg_nonneg less_imp_le)

lemma total_delta_v_loop_value:
  assumes "0 < P"
    and "\<forall>s\<in>set sts. 0 < total_mass s \<and> total_mass s = dry_mass s + propellant_mass s"
  shows "total_delta_v_loop acc (P + sum_list (map total_mass sts)) sts
           = Inr (acc + staged_sum P sts)"
  using assms(2)
proof (induction sts arbitrary: acc)
  case Nil
  show ?case by (simp add: staged_sum_def)
next
  case (Cons s rest)
  let ?rest = "sum_list (map total_mass rest)"
  have tm: "total_mass s = dry_mass s + propellant_mass s" and pos: "0 < total_mass s"
    using Cons.prems by simp_all
  have rest: "\<forall>s\<in>set rest. 0 < total_mass s \<and> total_mass s = dry_mass s + propellant_mass s"
    using Cons.prems by (meson list.set_intros(2))
  then have "0 \<le> ?rest" by (intro sum_list_total_pos) blast
  then have after: "0 < P + ?rest" using assms(1) by simp
  have before: "0 < P + (total_mass s + ?rest)"
    using after pos by simp
  have m': "P + (total_mass s + ?rest) - (propellant_mass s + dry_mass s) = P + ?rest"
    by (simp add: tm)
  have d: "py_div (P + (total_mass s + ?rest)) (P + ?rest)
             = Inr ((P + (total_mass s + ?rest)) / (P + ?rest))"
    using after by (simp add: py_div_def)
  have "0 < (P + (total_mass s + ?rest)) / (P + ?rest)"
    using before after by (rule divide_pos_pos)
  then have l: "py_log ((P + (total_mass s + ?rest)) / (P + ?rest))
             = Inr (ln ((P + (total_mass s + ?rest)) / (P + ?rest)))"
    by (simp add: py_log_def)
  have "total_delta_v_loop acc (P + sum_list (map total_mass (s # rest))) (s # rest)
          = total_delta_v_loop
              (acc + GRAVITY * isp_vac (propellant s)
                 * ln ((P + sum_list (map total_mass (s # rest))) / (P + ?rest)))
              (P + ?rest) rest"
    unfolding list.map sum_list.Cons total_delta_v_loop.simps Let_def m' d l sum.case ..
  also have "\<dots> = Inr (acc + GRAVITY * isp_vac (propellant s)
                 * ln ((P + sum_list (map total_mass (s # rest))) / (P + ?rest))
                 + staged_sum P rest)"
    by (rule Cons.IH [OF rest])
  finally show ?case
    by (simp add: staged_sum_Cons add.assoc)
qed

lemma get_total_delta_v_staged_sum:
  assumes "0 < payload_mass r" and "\<forall>s\<in>set (stages r). valid_stage s"
  shows "get_total_delta_v r = Inr (staged_sum (payload_mass r) (stages r))"
proof -
  have "\<forall>s\<in>set (stages r). 0 < total_mass s \<and> total_mass s = dry_mass s + propellant_mass s"
    using assms(2) by (auto simp: valid_stage_def)
  from total_delta_v_loop_value [OF assms(1) this, of 0]
  show ?thesis
    by (simp add: get_total_delta_v_def get_total_mass_sum)
qed

lemma Stage_init_fields:
  assumes "Stage_init nm dry prop tsl tvac bt dia len ptype = Inr s"
  shows "dry \<noteq> 0" "0 \<le> tvac" "name s = nm" "dry_mass s = dry" "propellant_mass s = prop"
    "thrust_sl s = tsl" "thrust_vac s = tvac" "burn_time s = bt" "diameter s = dia"
    "stage_length s = len" "propellant s = stage_propellant ptype"
    "mass_ratio s = (dry + prop) / dry" "total_mass s = dry + prop"
proof -
  have "\<exists>s. Stage_init nm dry prop tsl tvac bt dia len ptype = Inr s"
    using assms by (rule exI)
  then show d: "dry \<noteq> 0" and t: "0 \<le> tvac"
    unfolding Stage_init_Inr_iff by simp_all
  have "name s = nm \<and> dry_mass s = dry \<and> propellant_mass s = prop \<and> thrust_sl s = tsl
        \<and> thrust_vac s = tvac \<and> burn_time s = bt \<and> diameter s = dia \<and> stage_length s = len
        \<and> propellant s = stage_propellant ptype \<and> mass_ratio s = (dry + prop) / dry
        \<and> total_mass s = dry + prop"
  proof (rule Stage_init_succeeds [OF d t, of nm "prop" tsl bt dia len ptype])
    fix s'
    assume s': "Stage_init nm dry prop tsl tvac bt dia len ptype = Inr s'"
      and f: "name s' = nm" "dry_mass s' = dry" "propellant_mass s' = prop" "thrust_sl s' = tsl"
        "thrust_vac s' = tvac" "burn_time s' = bt" "diameter s' = dia" "stage_length s' = len"
        "propellant s' = stage_propellant ptype" "mass_ratio s' = (dry + prop) / dry"
        "total_mass s' = dry + prop"
    have "s' = s" using s' assms by simp
    then show ?thesis using f by simp
  qed
  then show "name s = nm" "dry_mass s = dry" "propellant_mass s = prop"
    "thrust_sl s = tsl" "thrust_vac s = tvac" "burn_time s = bt" "diameter s = dia"
    "stage_length s = len" "propellant s = stage_propellant ptype"
    "mass_ratio s = (dry + prop) / dry" "total_mass s = dry + prop"
    by simp_all
qed

lemma Stage_init_valid:
  assumes "Stage_init nm dry prop tsl tvac bt dia len ptype = Inr s" "0 < dry" "0 < prop"
  shows "valid_stage s"
  using assms(2,3) stage_propellant_props(3) [of ptype]
  by (simp add: valid_stage_def Stage_init_fields(4,5,11,12,13) [OF assms(1)])

lemma ratio_decreasing_in_payload:
  fixes P P' t R :: real
  assumes "0 < P" "P < P'" "0 < t" "0 \<le> R"
  shows "(P' + (t + R)) / (P' + R) < (P + (t + R)) / (P + R)"
proof -
  have a: "(P' + (t + R)) / (P' + R) = 1 + t / (P' + R)"
    using assms by (simp add: field_simps)
  have b: "(P + (t + R)) / (P + R) = 1 + t / (P + R)"
    using assms by (simp add: field_simps)
  have "t / (P' + R) < t / (P + R)"
    using assms by (intro divide_strict_left_mono) (auto intro: mult_pos_pos)
  then show ?thesis unfolding a b by simp
qed

lemma sum_total_split:
  assumes "\<forall>s\<in>set sts. valid_stage s"
  shows "sum_list (map total_mass sts)
           = sum_list (map dry_mass sts) + sum_list (map propellant_mass sts)"
  using assms by (induction sts) (auto simp: valid_stage_def)

lemma sum_dry_pos:
  assumes "sts \<noteq> []" "\<forall>s\<in>set sts. valid_stage s"
  shows "0 < sum_list (map dry_mass sts)"
proof -
  have "0 \<le> sum_list (map dry_mass xs)" if "\<forall>s\<in>set xs. valid_stage s" for xs
    using that by (induction xs) (auto simp: valid_stage_def intro: add_nonneg_nonneg less_imp_le)
  then show ?thesis
    using assms by (cases sts) (auto simp: valid_stage_def intro: add_pos_nonneg)
qed

lemma realistic_two_stage:
  obtains s1 s2 where
    "Stage_init ''First Stage'' 25000 385000 7600000 8200000 162 (37 / 10) (412 / 10) ''LOX/RP1''
       = Inr s1"
    "Stage_init ''Second Stage'' 4000 90000 0 934000 397 (37 / 10) (126 / 10) ''LOX/RP1''
       = Inr s2"
    "valid_stage s1" "valid_stage s2"
    "dry_mass s1 = 25000" "propellant_mass s1 = 385000" "total_mass s1 = 410000"
    "dry_mass s2 = 4000" "propellant_mass s2 = 90000" "total_mass s2 = 94000"
    "propellant s1 = LOX_RP1" "propellant s2 = LOX_RP1"
proof -
  have "\<exists>s. Stage_init ''First Stage'' 25000 385000 7600000 8200000 162 (37 / 10) (412 / 10)
              ''LOX/RP1'' = Inr s"
    unfolding Stage_init_Inr_iff by simp
  then obtain s1 where s1: "Stage_init ''First Stage'' 25000 385000 7600000 8200000 162
      (37 / 10) (412 / 10) ''LOX/RP1'' = Inr s1" ..
  have "\<exists>s. Stage_init ''Second Stage'' 4000 90000 0 934000 397 (37 / 10) (126 / 10)
              ''LOX/RP1'' = Inr s"
    unfolding Stage_init_Inr_iff by simp
  then obtain s2 where s2: "Stage_init ''Second Stage'' 4000 90000 0 934000 397
      (37 / 10) (126 / 10) ''LOX/RP1'' = Inr s2" ..
  show thesis
  proof (rule that [OF s1 s2])
    show "valid_stage s1" by (rule Stage_init_valid [OF s1]) simp_all
    show "valid_stage s2" by (rule Stage_init_valid [OF s2]) simp_all
    show "dry_mass s1 = 25000" "propellant_mass s1 = 385000" "total_mass s1 = 410000"
      using Stage_init_fields(4,5,13) [OF s1] by simp_all
    show "dry_mass s2 = 4000" "propellant_mass s2 = 90000" "total_mass s2 = 94000"
      using Stage_init_fields(4,5,13) [OF s2] by simp_all
    show "propellant s1 = LOX_RP1" "propellant s2 = LOX_RP1"
      using Stage_init_fields(11) [OF s1] Stage_init_fields(11) [OF s2]
      by (simp_all add: stage_propellant_RP1)
  qed
qed

lemma calculate_delta_v_value:
  assumes "0 < a" "0 < b"
  shows "calculate_delta_v a b isp = Inr (GRAVITY * isp * ln (a / b))"
  using assms by (simp add: calculate_delta_v_def py_div_def py_log_def divide_le_0_iff)

lemma burn_then_separate_loop_value:
  assumes "0 < P" and "\<forall>s\<in>set sts. valid_stage s"
  shows "burn_then_separate_loop acc (P + sum_list (map total_mass sts)) sts
           = Inr (acc + burn_sum P sts)"
  using assms(2)
proof (induction sts arbitrary: acc)
  case Nil
  show ?case by simp
next
  case (Cons s rest)
  let ?R = "sum_list (map total_mass rest)"
  have v: "valid_stage s" and rest: "\<forall>s\<in>set rest. valid_stage s"
    using Cons.prems by simp_all
  have tm: "total_mass s = dry_mass s + propellant_mass s"
    and d: "0 < dry_mass s" and pm: "0 < propellant_mass s"
    using v by (simp_all add: valid_stage_def)
  have "\<forall>s\<in>set rest. 0 < total_mass s"
    using rest by (auto simp: valid_stage_def)
  then have R: "0 \<le> ?R" by (rule sum_list_total_pos)
  have burnout: "P + (total_mass s + ?R) - propellant_mass s = P + dry_mass s + ?R"
    by (simp add: tm)
  have next_mass: "P + dry_mass s + ?R - dry_mass s = P + ?R"
    by simp
  have b: "0 < P + dry_mass s + ?R" using assms(1) d R by simp
  have a: "0 < P + (total_mass s + ?R)" using assms(1) d pm R by (simp add: tm)
  have c: "calculate_delta_v (P + (total_mass s + ?R)) (P + dry_mass s + ?R)
             (isp_vac (propellant s))
           = Inr (GRAVITY * isp_vac (propellant s)
                    * ln ((P + (total_mass s + ?R)) / (P + dry_mass s + ?R)))"
    using a b by (rule calculate_delta_v_value)
  have "burn_then_separate_loop acc (P + sum_list (map total_mass (s # rest))) (s # rest)
          = burn_then_separate_loop
              (acc + GRAVITY * isp_vac (propellant s)
                 * ln ((P + (total_mass s + ?R)) / (P + dry_mass s + ?R)))
              (P + ?R) rest"
    unfolding list.map sum_list.Cons burn_then_separate_loop.simps Let_def burnout c sum.case
      next_mass ..
  also have "\<dots> = Inr (acc + GRAVITY * isp_vac (propellant s)
                 * ln ((P + (total_mass s + ?R)) / (P + dry_mass s + ?R))
                 + burn_sum P rest)"
    by (rule Cons.IH [OF rest])
  finally show ?case
    by (simp add: add.assoc)
qed

lemma burn_then_separate_delta_v_value:
  assumes "0 < payload_mass r" and "\<forall>s\<in>set (stages r). valid_stage s"
  shows "burn_then_separate_delta_v r = Inr (burn_sum (payload_mass r) (stages r))"
  using burn_then_separate_loop_value [OF assms, of 0]
  by (simp add: burn_then_separate_delta_v_def get_total_mass_sum)

lemma burn_sum_le_staged_sum:
  assumes "0 < P" and "\<forall>s\<in>set sts. valid_stage s"
  shows "burn_sum P sts \<le> staged_sum P sts \<and> (sts \<noteq> [] \<longrightarrow> burn_sum P sts < staged_sum P sts)"
  using assms(2)
proof (induction sts)
  case Nil
  show ?case by (simp add: staged_sum_def)
next
  case (Cons s rest)
  let ?R = "sum_list (map total_mass rest)"
  have v: "valid_stage s" and rest: "\<forall>s\<in>set rest. valid_stage s"
    using Cons.prems by simp_all
  have tm: "total_mass s = dry_mass s + propellant_mass s"
    and d: "0 < dry_mass s" and pm: "0 < propellant_mass s"
    and isp: "0 < isp_vac (propellant s)"
    using v by (simp_all add: valid_stage_def)
  have "\<forall>s\<in>set rest. 0 < total_mass s"
    using rest by (auto simp: valid_stage_def)
  then have R: "0 \<le> ?R" by (rule sum_list_total_pos)
  have after: "0 < P + ?R" using assms(1) R by simp
  have before: "0 < P + total_mass s + ?R" using after d pm by (simp add: tm)
  have burnout: "0 < P + dry_mass s + ?R" using after d by simp
  have "(P + total_mass s + ?R) / (P + dry_mass s + ?R) < (P + total_mass s + ?R) / (P + ?R)"
    using before after d by (intro divide_strict_left_mono) (auto intro: mult_pos_pos)
  moreover have "0 < (P + total_mass s + ?R) / (P + dry_mass s + ?R)"
    using before burnout by (rule divide_pos_pos)
  ultimately have "ln ((P + total_mass s + ?R) / (P + dry_mass s + ?R))
                     < ln ((P + total_mass s + ?R) / (P + ?R))"
    by (intro ln_strict_mono)
  moreover have "0 < GRAVITY * isp_vac (propellant s)"
    using isp by (simp add: GRAVITY_def)
  ultimately have term_lt:
    "GRAVITY * isp_vac (propellant s) * ln ((P + total_mass s + ?R) / (P + dry_mass s + ?R))
       < GRAVITY * isp_vac (propellant s) * ln ((P + total_mass s + ?R) / (P + ?R))"
    by (simp only: mult_less_cancel_left_pos)
  have "burn_sum P rest \<le> staged_sum P rest"
    using Cons.IH [OF rest] by simp
  with term_lt have "burn_sum P (s # rest) < staged_sum P (s # rest)"
    unfolding staged_sum_Cons burn_sum.simps by (rule add_less_le_mono)
  then show ?case by simp
qed

lemma sum_prop_pos:
  assumes "sts \<noteq> []" "\<forall>s\<in>set sts. valid_stage s"
  shows "0 < sum_list (map propellant_mass sts)"
proof -
  have "0 \<le> sum_list (map propellant_mass xs)" if "\<forall>s\<in>set xs. valid_stage s" for xs
    using that by (induction xs) (auto simp: valid_stage_def intro: add_nonneg_nonneg less_imp_le)
  then show ?thesis
    using assms by (cases sts) (auto simp: valid_stage_def intro: add_pos_nonneg)
qed

lemma sum_dry_nonneg:
  assumes "\<forall>s\<in>set sts. valid_stage s"
  shows "0 \<le> sum_list (map dry_mass sts)"
  using assms by (induction sts) (auto simp: valid_stage_def intro: add_nonneg_nonneg less_imp_le)

lemma burn_sum_lower_bound:
  assumes "0 < P" "0 < isp"
    and "\<forall>s\<in>set sts. valid_stage s \<and> isp \<le> isp_vac (propellant s)"
  shows "GRAVITY * isp * ln ((P + sum_list (map total_mass sts)) / (P + sum_list (map dry_mass sts)))
           \<le> burn_sum P sts
         \<and> (2 \<le> length sts \<longrightarrow>
              GRAVITY * isp
                * ln ((P + sum_list (map total_mass sts)) / (P + sum_list (map dry_mass sts)))
              < burn_sum P sts)"
  using assms(3)
proof (induction sts)
  case Nil
  show ?case using assms(1) by simp
next
  case (Cons s rest)
  let ?T = "sum_list (map total_mass rest)"
  let ?D = "sum_list (map dry_mass rest)"
  let ?t = "total_mass s"
  let ?d = "dry_mass s"
  let ?A = "ln ((P + ?t + ?T) / (P + ?d + ?T))"
  let ?B = "ln ((P + ?d + ?T) / (P + ?d + ?D))"
  let ?C = "ln ((P + ?T) / (P + ?D))"
  have v: "valid_stage s" and isp: "isp \<le> isp_vac (propellant s)"
    and rest: "\<forall>s\<in>set rest. valid_stage s \<and> isp \<le> isp_vac (propellant s)"
    using Cons.prems by simp_all
  have vrest: "\<forall>s\<in>set rest. valid_stage s" using rest by blast
  have tm: "?t = ?d + propellant_mass s"
    and d: "0 < ?d" and pm: "0 < propellant_mass s"
    using v by (simp_all add: valid_stage_def)
  have D: "0 \<le> ?D" using vrest by (rule sum_dry_nonneg)
  have TD: "?T = ?D + sum_list (map propellant_mass rest)"
    using vrest by (rule sum_total_split)
  have DT: "?D \<le> ?T"
  proof (cases "rest = []")
    case True
    then show ?thesis by simp
  next
    case False
    then have "0 < sum_list (map propellant_mass rest)"
      using vrest by (rule sum_prop_pos)
    then show ?thesis using TD by simp
  qed
  have g: "0 < GRAVITY * isp" using assms(2) by (simp add: GRAVITY_def)
  have pdT: "0 < P + ?d + ?T" and pdD: "0 < P + ?d + ?D" and ptT: "0 < P + ?t + ?T"
    and pD: "0 < P + ?D" and pT: "0 < P + ?T"
    using assms(1) d pm D DT by (simp_all add: tm)
  have "1 \<le> (P + ?t + ?T) / (P + ?d + ?T)"
    using pdT pm by (simp add: tm)
  then have A0: "0 \<le> ?A" by (rule ln_ge_zero)
  have "GRAVITY * isp \<le> GRAVITY * isp_vac (propellant s)"
    using isp by (simp add: GRAVITY_def)
  then have stepA: "GRAVITY * isp * ?A \<le> GRAVITY * isp_vac (propellant s) * ?A"
    using A0 by (rule mult_right_mono)
  have BC: "?B \<le> ?C \<and> (rest \<noteq> [] \<longrightarrow> ?B < ?C)"
  proof (cases "rest = []")
    case True
    then show ?thesis using pdD pD by simp
  next
    case False
    then have pr: "0 < sum_list (map propellant_mass rest)"
      using vrest by (rule sum_prop_pos)
    have lt0: "0 < P + ?D" "P + ?D < P + ?d + ?D" "0 < ?T - ?D" "(0::real) \<le> 0"
      using pD d pr TD by simp_all
    have "(P + ?d + ?D + (?T - ?D + 0)) / (P + ?d + ?D + 0)
            < (P + ?D + (?T - ?D + 0)) / (P + ?D + 0)"
      using lt0 by (rule ratio_decreasing_in_payload)
    then have lt: "(P + ?d + ?T) / (P + ?d + ?D) < (P + ?T) / (P + ?D)"
      by (simp add: add.assoc)
    have "0 < (P + ?d + ?T) / (P + ?d + ?D)"
      using pdT pdD by (rule divide_pos_pos)
    with lt have "?B < ?C" by (intro ln_strict_mono)
    then show ?thesis by simp
  qed
  have split: "ln ((P + ?t + ?T) / (P + ?d + ?D)) = ?A + ?B"
  proof -
    have "(P + ?t + ?T) / (P + ?d + ?D)
            = ((P + ?t + ?T) / (P + ?d + ?T)) * ((P + ?d + ?T) / (P + ?d + ?D))"
      using pdT by simp
    moreover have "0 < (P + ?t + ?T) / (P + ?d + ?T)"
      using ptT pdT by (rule divide_pos_pos)
    moreover have "0 < (P + ?d + ?T) / (P + ?d + ?D)"
      using pdT pdD by (rule divide_pos_pos)
    ultimately show ?thesis by (simp only: ln_mult_pos)
  qed
  have IH: "GRAVITY * isp * ?C \<le> burn_sum P rest"
    using Cons.IH [OF rest] by simp
  have args: "P + sum_list (map total_mass (s # rest)) = P + ?t + ?T"
    "P + sum_list (map dry_mass (s # rest)) = P + ?d + ?D"
    by simp_all
  have lhs: "GRAVITY * isp
               * ln ((P + sum_list (map total_mass (s # rest)))
                     / (P + sum_list (map dry_mass (s # rest))))
             = GRAVITY * isp * ?A + GRAVITY * isp * ?B"
    unfolding args split by (rule distrib_left)
  have stepB: "GRAVITY * isp * ?B \<le> GRAVITY * isp * ?C"
    by (rule mult_left_mono [OF BC [THEN conjunct1] less_imp_le [OF g]])
  have le: "GRAVITY * isp * ?A + GRAVITY * isp * ?B
              \<le> GRAVITY * isp_vac (propellant s) * ?A + burn_sum P rest"
    using stepA stepB IH by linarith
  have lt: "GRAVITY * isp * ?A + GRAVITY * isp * ?B
              < GRAVITY * isp_vac (propellant s) * ?A + burn_sum P rest" if "rest \<noteq> []"
  proof -
    have "?B < ?C" using BC that by simp
    then have "GRAVITY * isp * ?B < GRAVITY * isp * ?C"
      using g by (simp only: mult_less_cancel_left_pos)
    then show ?thesis using stepA IH by linarith
  qed
  have two: "rest \<noteq> []" if "2 \<le> length (s # rest)"
    using that by auto
  show ?case
    unfolding lhs burn_sum.simps using le lt two by blast
qed

lemma sum_delta_v_value:
  assumes "\<forall>s\<in>set sts. valid_stage s"
  shows "sum_delta_v sts
           = Inr (sum_list (map (\<lambda>s. isp_vac (propellant s) * GRAVITY
                                     * ln (total_mass s / dry_mass s)) sts))"
  using assms
proof (induction sts)
  case Nil
  show ?case by simp
next
  case (Cons s rest)
  have v: "valid_stage s" and rest: "\<forall>s\<in>set rest. valid_stage s"
    using Cons.prems by simp_all
  have mr: "mass_ratio s = total_mass s / dry_mass s"
    and d: "0 < dry_mass s" and pm: "0 < propellant_mass s"
    and tm: "total_mass s = dry_mass s + propellant_mass s"
    using v by (simp_all add: valid_stage_def)
  have "0 < total_mass s" using d pm tm by simp
  then have "0 < total_mass s / dry_mass s" using d by (rule divide_pos_pos)
  then have "py_log (total_mass s / dry_mass s) = Inr (ln (total_mass s / dry_mass s))"
    unfolding py_log_def by (simp only: not_le [symmetric] if_False)
  then have g: "get_delta_v s
                  = Inr (isp_vac (propellant s) * GRAVITY * ln (total_mass s / dry_mass s))"
    by (simp add: get_delta_v_def mr)
  show ?case
    unfolding sum_delta_v.simps g Cons.IH [OF rest] by simp
qed

lemma burn_sum_less_naive:
  assumes "0 < P" and "\<forall>s\<in>set sts. valid_stage s"
  shows "burn_sum P sts
           \<le> sum_list (map (\<lambda>s. isp_vac (propellant s) * GRAVITY
                                 * ln (total_mass s / dry_mass s)) sts)
         \<and> (sts \<noteq> [] \<longrightarrow>
              burn_sum P sts
                < sum_list (map (\<lambda>s. isp_vac (propellant s) * GRAVITY
                                     * ln (total_mass s / dry_mass s)) sts))"
  using assms(2)
proof (induction sts)
  case Nil
  show ?case by simp
next
  case (Cons s rest)
  let ?R = "sum_list (map total_mass rest)"
  let ?naive = "\<lambda>s. isp_vac (propellant s) * GRAVITY * ln (total_mass s / dry_mass s)"
  have v: "valid_stage s" and rest: "\<forall>s\<in>set rest. valid_stage s"
    using Cons.prems by simp_all
  have tm: "total_mass s = dry_mass s + propellant_mass s"
    and d: "0 < dry_mass s" and pm: "0 < propellant_mass s"
    and isp: "0 < isp_vac (propellant s)"
    using v by (simp_all add: valid_stage_def)
  have "\<forall>s\<in>set rest. 0 < total_mass s"
    using rest by (auto simp: valid_stage_def)
  then have R: "0 \<le> ?R" by (rule sum_list_total_pos)
  have x: "0 < P + ?R" using assms(1) R by simp
  have dt: "dry_mass s < total_mass s" using pm tm by simp
  have burnout: "0 < P + dry_mass s + ?R" using x d by simp
  have before: "0 < P + total_mass s + ?R" using x d dt by simp
  have "dry_mass s * (P + ?R) < total_mass s * (P + ?R)"
    using dt x by (rule mult_strict_right_mono)
  then have "(P + total_mass s + ?R) * dry_mass s < total_mass s * (P + dry_mass s + ?R)"
    by (simp add: algebra_simps)
  then have "(P + total_mass s + ?R) / (P + dry_mass s + ?R) < total_mass s / dry_mass s"
    using burnout d by (simp add: divide_simps mult.commute)
  moreover have "0 < (P + total_mass s + ?R) / (P + dry_mass s + ?R)"
    using before burnout by (rule divide_pos_pos)
  ultimately have "ln ((P + total_mass s + ?R) / (P + dry_mass s + ?R))
                     < ln (total_mass s / dry_mass s)"
    by (intro ln_strict_mono)
  moreover have "0 < GRAVITY * isp_vac (propellant s)"
    using isp by (simp add: GRAVITY_def)
  ultimately have "GRAVITY * isp_vac (propellant s)
                      * ln ((P + total_mass s + ?R) / (P + dry_mass s + ?R))
                    < GRAVITY * isp_vac (propellant s) * ln (total_mass s / dry_mass s)"
    by (simp only: mult_less_cancel_left_pos)
  then have term_lt: "GRAVITY * isp_vac (propellant s)
                      * ln ((P + total_mass s + ?R) / (P + dry_mass s + ?R)) < ?naive s"
    by (simp add: mult.commute)
  have "burn_sum P rest \<le> sum_list (map ?naive rest)"
    using Cons.IH [OF rest] by simp
  with term_lt have "burn_sum P (s # rest) < sum_list (map ?naive (s # rest))"
    unfolding burn_sum.simps list.map sum_list.Cons by (rule add_less_le_mono)
  then show ?case by simp
qed

text \<open>
  For every rocket with a positive payload and at least one valid stage, the walk that
  burns first and separates afterwards is strictly below the naive sum of the stages'
  own delta-v, and strictly below what \<open>get_total_delta_v\<close> returns.
\<close>

lemma burn_then_separate_below_naive_and_total:
  assumes "0 < payload_mass r" and "\<forall>s\<in>set (stages r). valid_stage s"
    and "stages r \<noteq> []"
  shows "\<exists>walk naive staged.
           burn_then_separate_delta_v r = Inr walk \<and> naive_delta_v_sum r = Inr naive
           \<and> get_total_delta_v r = Inr staged \<and> walk < naive \<and> walk < staged"
proof -
  have walk: "burn_then_separate_delta_v r = Inr (burn_sum (payload_mass r) (stages r))"
    using assms(1,2) by (rule burn_then_separate_delta_v_value)
  have naive: "naive_delta_v_sum r
                 = Inr (sum_list (map (\<lambda>s. isp_vac (propellant s) * GRAVITY
                                           * ln (total_mass s / dry_mass s)) (stages r)))"
    unfolding naive_delta_v_sum_def using assms(2) by (rule sum_delta_v_value)
  have staged: "get_total_delta_v r = Inr (staged_sum (payload_mass r) (stages r))"
    using assms(1,2) by (rule get_total_delta_v_staged_sum)
  have "burn_sum (payload_mass r) (stages r)
          < sum_list (map (\<lambda>s. isp_vac (propellant s) * GRAVITY
                               * ln (total_mass s / dry_mass s)) (stages r))"
    using burn_sum_less_naive [OF assms(1,2)] assms(3) by blast
  moreover have "burn_sum (payload_mass r) (stages r) < staged_sum (payload_mass r) (stages r)"
    using burn_sum_le_staged_sum [OF assms(1,2)] assms(3) by blast
  ultimately show ?thesis
    using walk naive staged by blast
qed

lemma equal_ratio_two_stage:
  obtains s1 s2 where
    "Stage_init ''Stage 1'' 1000 1000 40000 50000 60 1 5 ''LOX/LH2'' = Inr s1"
    "Stage_init ''Stage 2'' 500 500 0 20000 60 1 3 ''LOX/LH2'' = Inr s2"
    "valid_stage s1" "valid_stage s2"
    "dry_mass s1 = 1000" "total_mass s1 = 2000" "mass_ratio s1 = 2"
    "dry_mass s2 = 500" "total_mass s2 = 1000" "mass_ratio s2 = 2"
    "propellant s1 = LOX_LH2" "propellant s2 = LOX_LH2"
proof -
  have "\<exists>s. Stage_init ''Stage 1'' 1000 1000 40000 50000 60 1 5 ''LOX/LH2'' = Inr s"
    unfolding Stage_init_Inr_iff by simp
  then obtain s1 where s1: "Stage_init ''Stage 1'' 1000 1000 40000 50000 60 1 5 ''LOX/LH2''
      = Inr s1" ..
  have "\<exists>s. Stage_init ''Stage 2'' 500 500 0 20000 60 1 3 ''LOX/LH2'' = Inr s"
    unfolding Stage_init_Inr_iff by simp
  then obtain s2 where s2: "Stage_init ''Stage 2'' 500 500 0 20000 60 1 3 ''LOX/LH2''
      = Inr s2" ..
  show thesis
  proof (rule that [OF s1 s2])
    show "valid_stage s1" by (rule Stage_init_valid [OF s1]) simp_all
    show "valid_stage s2" by (rule Stage_init_valid [OF s2]) simp_all
    show "dry_mass s1 = 1000" "total_mass s1 = 2000" "mass_ratio s1 = 2"
      using Stage_init_fields(4,13,12) [OF s1] by simp_all
    show "dry_mass s2 = 500" "total_mass s2 = 1000" "mass_ratio s2 = 2"
      using Stage_init_fields(4,13,12) [OF s2] by simp_all
    show "propellant s1 = LOX_LH2" "propellant s2 = LOX_LH2"
      using Stage_init_fields(11) [OF s1] Stage_init_fields(11) [OF s2]
      by (simp_all add: stage_propellant_default)
  qed
qed

text \<open>
  Claim C1. The rocket with payload 1000 kg, a first stage of dry mass 1000 kg and
  propellant mass 1000 kg and a second stage of dry mass 500 kg and propellant mass
  500 kg, both on the default propellant. \<open>get_total_delta_v\<close> takes the stage's dry
  mass out of the running mass together with its propellant, before the logarithm, so
  its two ratios are 4000 / 2000 and 2000 / 1000: the total is exactly the naive sum of
  the two stages' own \<open>get_delta_v\<close>, each of mass ratio 2. The walk that burns the
  propellant first and drops the dry mass at separation has the ratios 4000 / 3000 and
  2000 / 1500 and a strictly smaller total.
\<close>

theorem get_total_delta_v_drops_dry_mass_before_burn:
  "and_then (Stage_init ''Stage 1'' 1000 1000 40000 50000 60 1 5 ''LOX/LH2'') (\<lambda>s1.
   and_then (Stage_init ''Stage 2'' 500 500 0 20000 60 1 3 ''LOX/LH2'') (\<lambda>s2.
     get_total_delta_v \<lparr> payload_mass = 1000, stages = [s1, s2] \<rparr>))
     = Inr (GRAVITY * 450 * ln 2 + GRAVITY * 450 * ln 2)
   \<and> and_then (Stage_init ''Stage 1'' 1000 1000 40000 50000 60 1 5 ''LOX/LH2'') (\<lambda>s1.
      and_then (Stage_init ''Stage 2'' 500 500 0 20000 60 1 3 ''LOX/LH2'') (\<lambda>s2.
        naive_delta_v_sum \<lparr> payload_mass = 1000, stages = [s1, s2] \<rparr>))
        = Inr (GRAVITY * 450 * ln 2 + GRAVITY * 450 * ln 2)
   \<and> and_then (Stage_init ''Stage 1'' 1000 1000 40000 50000 60 1 5 ''LOX/LH2'') (\<lambda>s1.
      and_then (Stage_init ''Stage 2'' 500 500 0 20000 60 1 3 ''LOX/LH2'') (\<lambda>s2.
        burn_then_separate_delta_v \<lparr> payload_mass = 1000, stages = [s1, s2] \<rparr>))
        = Inr (GRAVITY * 450 * ln (4 / 3) + GRAVITY * 450 * ln (4 / 3))
   \<and> GRAVITY * 450 * ln (4 / 3) + GRAVITY * 450 * ln (4 / 3)
        < GRAVITY * 450 * ln 2 + GRAVITY * 450 * ln 2"
proof (rule equal_ratio_two_stage)
  fix s1 s2
  assume s1: "Stage_init ''Stage 1'' 1000 1000 40000 50000 60 1 5 ''LOX/LH2'' = Inr s1"
    and s2: "Stage_init ''Stage 2'' 500 500 0 20000 60 1 3 ''LOX/LH2'' = Inr s2"
    and v: "valid_stage s1" "valid_stage s2"
    and f: "dry_mass s1 = 1000" "total_mass s1 = 2000" "mass_ratio s1 = 2"
      "dry_mass s2 = 500" "total_mass s2 = 1000" "mass_ratio s2 = 2"
      "propellant s1 = LOX_LH2" "propellant s2 = LOX_LH2"
  let ?r = "\<lparr> payload_mass = 1000, stages = [s1, s2] \<rparr>"
  have p: "0 < payload_mass ?r" by simp
  have st: "\<forall>s\<in>set (stages ?r). valid_stage s" using v by simp
  have isp: "isp_vac LOX_LH2 = 450" by (simp add: LOX_LH2_def)
  have code: "get_total_delta_v ?r = Inr (GRAVITY * 450 * ln 2 + GRAVITY * 450 * ln 2)"
    unfolding get_total_delta_v_staged_sum [OF p st]
    by (simp add: staged_sum_Cons staged_sum_def f isp)
  have naive: "naive_delta_v_sum ?r = Inr (GRAVITY * 450 * ln 2 + GRAVITY * 450 * ln 2)"
    by (simp add: naive_delta_v_sum_def get_delta_v_def py_log_def f isp)
  have walk: "burn_then_separate_delta_v ?r
                = Inr (GRAVITY * 450 * ln (4 / 3) + GRAVITY * 450 * ln (4 / 3))"
    unfolding burn_then_separate_delta_v_value [OF p st]
    by (simp add: f isp)
  have "ln (4 / 3) < ln (2::real)"
    by (rule ln_strict_mono) simp_all
  then have lt: "GRAVITY * 450 * ln (4 / 3) + GRAVITY * 450 * ln (4 / 3)
                   < GRAVITY * 450 * ln 2 + GRAVITY * 450 * ln 2"
    by (simp add: GRAVITY_def)
  show ?thesis
    unfolding s1 s2 and_then_Inr code naive walk using lt by simp
qed

lemma staged_sum_shared_isp:
  assumes "0 < P" and "\<forall>s\<in>set sts. 0 < total_mass s \<and> isp_vac (propellant s) = isp"
  shows "staged_sum P sts = GRAVITY * isp * ln ((P + sum_list (map total_mass sts)) / P)"
  using assms(2)
proof (induction sts)
  case Nil
  show ?case using assms(1) by (simp add: staged_sum_def)
next
  case (Cons s rest)
  let ?R = "sum_list (map total_mass rest)"
  have t: "0 < total_mass s" and isp: "isp_vac (propellant s) = isp"
    using Cons.prems by simp_all
  have rest: "\<forall>s\<in>set rest. 0 < total_mass s \<and> isp_vac (propellant s) = isp"
    using Cons.prems by simp
  then have "\<forall>s\<in>set rest. 0 < total_mass s" by blast
  then have R: "0 \<le> ?R" by (rule sum_list_total_pos)
  have pr: "0 < P + ?R" using assms(1) R by simp
  have ptr: "0 < P + (total_mass s + ?R)" using pr t by simp
  have split: "ln ((P + (total_mass s + ?R)) / P)
                 = ln ((P + (total_mass s + ?R)) / (P + ?R)) + ln ((P + ?R) / P)"
    using assms(1) pr ptr by (simp add: ln_div)
  have "staged_sum P (s # rest)
          = GRAVITY * isp * ln ((P + (total_mass s + ?R)) / (P + ?R))
            + GRAVITY * isp * ln ((P + ?R) / P)"
    unfolding staged_sum_Cons isp Cons.IH [OF rest] by (simp add: add.assoc)
  also have "\<dots> = GRAVITY * isp * ln ((P + (total_mass s + ?R)) / P)"
    unfolding split by (rule distrib_left [symmetric])
  finally show ?case by simp
qed

text \<open>
  With one specific impulse for all stages, \<open>get_total_delta_v\<close> depends on the stages
  only through their summed total mass: how that mass is divided into stages, and into
  dry mass and propellant, does not change the result.
\<close>

lemma get_total_delta_v_shared_isp:
  assumes "0 < payload_mass r" and "\<forall>s\<in>set (stages r). valid_stage s"
    and "\<forall>s\<in>set (stages r). isp_vac (propellant s) = isp"
  shows "get_total_delta_v r = Inr (GRAVITY * isp * ln (get_total_mass r / payload_mass r))"
proof -
  have "\<forall>s\<in>set (stages r). 0 < total_mass s \<and> isp_vac (propellant s) = isp"
    using assms(2,3) by (auto simp: valid_stage_def)
  then show ?thesis
    unfolding get_total_delta_v_staged_sum [OF assms(1,2)] get_total_mass_sum
    using assms(1) by (simp add: staged_sum_shared_isp)
qed

text \<open>
  Claim C5, as amended. Take a rocket of at least two valid stages and a positive
  payload, and treat the whole vehicle as one \<open>Stage\<close>: its dry mass is the payload
  plus every stage's dry mass, its propellant mass is all the propellant, and its
  specific impulse is no better than that of any stage of the rocket (for instance the
  propellant they share). Then \<open>get_delta_v\<close> of that single stage is strictly below
  \<open>get_total_delta_v\<close> of the rocket, and both are defined. Staging is what helps:
  already the walk that burns each stage's propellant and then drops its dry mass is
  strictly above the single stage, which needs the second stage, and
  \<open>get_total_delta_v\<close> is not below that walk.
\<close>

theorem total_delta_v_exceeds_single_stage:
  assumes "0 < payload_mass r" and "\<forall>s\<in>set (stages r). valid_stage s"
    and "2 \<le> length (stages r)"
    and whole: "Stage_init nm (payload_mass r + sum_list (map dry_mass (stages r)))
                  (sum_list (map propellant_mass (stages r))) tsl tvac bt dia len ptype
                = Inr whole"
    and isp: "\<forall>s\<in>set (stages r). isp_vac (propellant whole) \<le> isp_vac (propellant s)"
  shows "\<exists>naive walk staged.
           get_delta_v whole = Inr naive \<and> burn_then_separate_delta_v r = Inr walk
           \<and> get_total_delta_v r = Inr staged
           \<and> naive < walk \<and> walk \<le> staged \<and> naive < staged"
proof -
  let ?P = "payload_mass r"
  let ?D = "sum_list (map dry_mass (stages r))"
  let ?M = "?P + sum_list (map total_mass (stages r))"
  let ?isp = "isp_vac (propellant whole)"
  have ne: "stages r \<noteq> []" using assms(3) by auto
  have tot: "sum_list (map total_mass (stages r))
               = ?D + sum_list (map propellant_mass (stages r))"
    using assms(2) by (rule sum_total_split)
  have D: "0 < ?D"
    using ne assms(2) by (rule sum_dry_pos)
  have ispw: "0 < ?isp"
    using stage_propellant_props(3) [of ptype] by (simp add: Stage_init_fields(11) [OF whole])
  have mr: "mass_ratio whole = ?M / (?P + ?D)"
    by (simp add: Stage_init_fields(12) [OF whole] tot add.assoc)
  have "\<forall>s\<in>set (stages r). 0 < total_mass s"
    using assms(2) by (auto simp: valid_stage_def)
  then have "0 \<le> sum_list (map total_mass (stages r))"
    by (rule sum_list_total_pos)
  with assms(1) have Mpos: "0 < ?M"
    by (rule add_pos_nonneg)
  have mrpos: "0 < ?M / (?P + ?D)"
    using Mpos assms(1) D by (intro divide_pos_pos) simp_all
  have naive: "get_delta_v whole = Inr (?isp * GRAVITY * ln (?M / (?P + ?D)))"
    using mrpos by (simp add: get_delta_v_def mr py_log_def)
  have walk: "burn_then_separate_delta_v r = Inr (burn_sum ?P (stages r))"
    using assms(1,2) by (rule burn_then_separate_delta_v_value)
  have staged: "get_total_delta_v r = Inr (staged_sum ?P (stages r))"
    using assms(1,2) by (rule get_total_delta_v_staged_sum)
  have "\<forall>s\<in>set (stages r). valid_stage s \<and> ?isp \<le> isp_vac (propellant s)"
    using assms(2) isp by blast
  then have "GRAVITY * ?isp * ln (?M / (?P + ?D)) < burn_sum ?P (stages r)"
    using burn_sum_lower_bound [OF assms(1) ispw, of "stages r"] assms(3) by blast
  then have lt: "?isp * GRAVITY * ln (?M / (?P + ?D)) < burn_sum ?P (stages r)"
    by (simp add: mult.commute)
  have le: "burn_sum ?P (stages r) \<le> staged_sum ?P (stages r)"
    using burn_sum_le_staged_sum [OF assms(1,2)] by (rule conjunct1)
  from lt le have "?isp * GRAVITY * ln (?M / (?P + ?D)) < staged_sum ?P (stages r)"
    by (rule less_le_trans)
  with naive walk staged lt le show ?thesis by blast
qed

theorem total_delta_v_exceeds_single_stage_witness:
  "\<exists>s1 s2 whole naive walk staged.
     Stage_init ''First Stage'' 25000 385000 7600000 8200000 162 (37 / 10) (412 / 10) ''LOX/RP1''
       = Inr s1
     \<and> Stage_init ''Second Stage'' 4000 90000 0 934000 397 (37 / 10) (126 / 10) ''LOX/RP1''
         = Inr s2
     \<and> Stage_init ''Single Stage'' 44000 475000 7600000 8200000 559 (37 / 10) (538 / 10)
           ''LOX/RP1'' = Inr whole
     \<and> get_delta_v whole = Inr naive
     \<and> burn_then_separate_delta_v \<lparr> payload_mass = 15000, stages = [s1, s2] \<rparr> = Inr walk
     \<and> get_total_delta_v \<lparr> payload_mass = 15000, stages = [s1, s2] \<rparr> = Inr staged
     \<and> naive < walk \<and> walk \<le> staged \<and> naive < staged"
proof (rule realistic_two_stage)
  fix s1 s2
  assume s: "Stage_init ''First Stage'' 25000 385000 7600000 8200000 162 (37 / 10) (412 / 10)
               ''LOX/RP1'' = Inr s1"
      "Stage_init ''Second Stage'' 4000 90000 0 934000 397 (37 / 10) (126 / 10) ''LOX/RP1''
         = Inr s2"
    and v: "valid_stage s1" "valid_stage s2"
    and f: "dry_mass s1 = 25000" "propellant_mass s1 = 385000"
      "dry_mass s2 = 4000" "propellant_mass s2 = 90000"
      "propellant s1 = LOX_RP1" "propellant s2 = LOX_RP1"
  let ?r = "\<lparr> payload_mass = 15000, stages = [s1, s2] \<rparr>"
  have "\<exists>w. Stage_init ''Single Stage'' 44000 475000 7600000 8200000 559 (37 / 10) (538 / 10)
              ''LOX/RP1'' = Inr w"
    unfolding Stage_init_Inr_iff by simp
  then obtain whole where w: "Stage_init ''Single Stage'' 44000 475000 7600000 8200000 559
      (37 / 10) (538 / 10) ''LOX/RP1'' = Inr whole" ..
  have p: "0 < payload_mass ?r" by simp
  have st: "\<forall>s\<in>set (stages ?r). valid_stage s" using v by simp
  have n: "2 \<le> length (stages ?r)" by simp
  have w': "Stage_init ''Single Stage'' (payload_mass ?r + sum_list (map dry_mass (stages ?r)))
              (sum_list (map propellant_mass (stages ?r))) 7600000 8200000 559 (37 / 10)
              (538 / 10) ''LOX/RP1'' = Inr whole"
    using w by (simp add: f)
  have isp: "\<forall>s\<in>set (stages ?r). isp_vac (propellant whole) \<le> isp_vac (propellant s)"
    by (simp add: f Stage_init_fields(11) [OF w] stage_propellant_RP1)
  obtain naive walk staged where "get_delta_v whole = Inr naive"
      "burn_then_separate_delta_v ?r = Inr walk"
      "get_total_delta_v ?r = Inr staged" "naive < walk" "walk \<le> staged" "naive < staged"
    using total_delta_v_exceeds_single_stage [OF p st n w' isp] by (elim exE conjE)
  then show ?thesis
    using s w by (intro exI conjI)
qed

lemma ln_9_ge_2: "2 \<le> ln (9::real)"
proof -
  have "exp (2::real) = exp 1 * exp 1"
    by (simp add: exp_add [symmetric])
  also have "\<dots> \<le> 3 * 3"
    by (intro mult_mono exp_le) simp_all
  finally have "exp (2::real) \<le> 9" by simp
  then show ?thesis by (simp add: ln_ge_iff)
qed

text \<open>
  The claim as stated fails: it does not say which propellant the single stage burns. A
  10000 kg payload on a LOX/RP1 first stage (dry 4000 kg, propellant 92000 kg) and a
  small LOX/LH2 second stage (dry 500 kg, propellant 1500 kg), against the whole vehicle
  as one LOX/LH2 stage (dry 14500 kg, propellant 93500 kg): the total delta-v of the two
  stages is below the delta-v of the single stage.
\<close>

theorem single_stage_of_better_isp_counterexample:
  "and_then (Stage_init ''First Stage'' 4000 92000 1500000 1700000 150 (37 / 10) 30 ''LOX/RP1'')
     (\<lambda>s1.
   and_then (Stage_init ''Second Stage'' 500 1500 0 20000 300 (37 / 10) 3 ''LOX/LH2'') (\<lambda>s2.
   and_then (Stage_init ''Single Stage'' 14500 93500 1500000 1700000 160 (37 / 10) 33 ''LOX/LH2'')
     (\<lambda>whole.
   and_then (get_total_delta_v \<lparr> payload_mass = 10000, stages = [s1, s2] \<rparr>) (\<lambda>staged.
   and_then (get_delta_v whole) (\<lambda>naive. Inr (staged < naive))))))
   = Inr True"
proof -
  have "\<exists>s. Stage_init ''First Stage'' 4000 92000 1500000 1700000 150 (37 / 10) 30 ''LOX/RP1''
              = Inr s"
    unfolding Stage_init_Inr_iff by simp
  then obtain s1 where s1: "Stage_init ''First Stage'' 4000 92000 1500000 1700000 150 (37 / 10)
      30 ''LOX/RP1'' = Inr s1" ..
  have "\<exists>s. Stage_init ''Second Stage'' 500 1500 0 20000 300 (37 / 10) 3 ''LOX/LH2'' = Inr s"
    unfolding Stage_init_Inr_iff by simp
  then obtain s2 where s2: "Stage_init ''Second Stage'' 500 1500 0 20000 300 (37 / 10) 3
      ''LOX/LH2'' = Inr s2" ..
  have "\<exists>s. Stage_init ''Single Stage'' 14500 93500 1500000 1700000 160 (37 / 10) 33 ''LOX/LH2''
              = Inr s"
    unfolding Stage_init_Inr_iff by simp
  then obtain whole where w: "Stage_init ''Single Stage'' 14500 93500 1500000 1700000 160
      (37 / 10) 33 ''LOX/LH2'' = Inr whole" ..
  let ?r = "\<lparr> payload_mass = 10000, stages = [s1, s2] \<rparr>"
  have v: "valid_stage s1" "valid_stage s2"
    by (rule Stage_init_valid [OF s1], simp, simp) (rule Stage_init_valid [OF s2], simp, simp)
  have f: "total_mass s1 = 96000" "total_mass s2 = 2000"
      "propellant s1 = LOX_RP1" "propellant s2 = LOX_LH2"
      "mass_ratio whole = 216 / 29" "propellant whole = LOX_LH2"
    using Stage_init_fields(13,11) [OF s1] Stage_init_fields(13,11) [OF s2]
      Stage_init_fields(12,11) [OF w]
    by (simp_all add: stage_propellant_RP1 stage_propellant_default)
  have isp: "isp_vac LOX_LH2 = 450" "isp_vac LOX_RP1 = 340"
    by (simp_all add: LOX_LH2_def LOX_RP1_def)
  have p: "0 < payload_mass ?r" by simp
  have st: "\<forall>s\<in>set (stages ?r). valid_stage s" using v by simp
  have staged: "get_total_delta_v ?r
                  = Inr (GRAVITY * 340 * ln 9 + GRAVITY * 450 * ln (6 / 5))"
    unfolding get_total_delta_v_staged_sum [OF p st]
    by (simp add: staged_sum_Cons staged_sum_def f isp)
  have naive: "get_delta_v whole = Inr (450 * GRAVITY * ln (216 / 29))"
    by (simp add: get_delta_v_def py_log_def f isp)
  have "ln (9 * (6 / 5)) = ln (9::real) + ln (6 / 5)"
    by (rule ln_mult_pos) simp_all
  moreover have "ln ((216 / 29) * (29 / 20)) = ln (216 / 29 :: real) + ln (29 / 20)"
    by (rule ln_mult_pos) simp_all
  ultimately have rel: "ln (9::real) + ln (6 / 5) = ln (216 / 29) + ln (29 / 20)"
    by simp
  have "ln (1 + 9 / 20 :: real) \<le> 9 / 20"
    by (rule ln_add_one_self_le_self) simp
  then have e: "ln (29 / 20 :: real) \<le> 9 / 20" by simp
  have lt: "GRAVITY * 340 * ln 9 + GRAVITY * 450 * ln (6 / 5) < 450 * GRAVITY * ln (216 / 29)"
    unfolding GRAVITY_def using rel e ln_9_ge_2 by simp
  show ?thesis
    unfolding s1 s2 w and_then_Inr staged naive using lt by simp
qed

section \<open>The optimizer: altitude estimate and construction\<close>

lemma stage_index_cases:
  assumes "n \<in> {1, 2, 3}" "i < nat n"
  shows "(n = 1 \<and> i = 0) \<or> (n = 2 \<and> i = 0) \<or> (n = 2 \<and> i = 1)
         \<or> (n = 3 \<and> i = 0) \<or> (n = 3 \<and> i = 1) \<or> (n = 3 \<and> i = 2)"
  using assms by auto

lemma initial_stage_unfold:
  fixes payload target :: real
  assumes n: "n \<in> {1, 2, 3}" and i: "i < nat n"
    and R: "R = (if target < 100000 then 20 else if target < 400000 then 30 else 50)"
    and f: "f = the (stage_mass_fractions n) ! i"
    and pf: "pf = (if i = 0 then 93 / 100 else if i = 1 then 90 / 100 else 88 / 100)"
    and sm: "sm = payload * R * f"
    and pt: "pt = the (the (stage_propellants n) i)"
    and tvac: "tvac = (if i = 0 then (16 / 10) * sm * GRAVITY else (9 / 10) * sm * GRAVITY)"
    and dia: "dia = (if target < 100000 then 15 / 10 else if target < 400000 then 37 / 10
                     else 84 / 10)
                    * (if i = 0 then 1 else if i = 1 then 9 / 10 else 8 / 10)"
  shows "initial_stage target payload n i =
          and_then
            (if 0 < sm * pf \<and> 0 < tvac
             then and_then (py_div tvac ((if pt = ''LOX/RP1'' then 340 else 450) * GRAVITY))
                    (\<lambda>mdot. py_div (sm * pf) mdot)
             else Inr 200)
            (\<lambda>bt. Stage_init (''Stage '' @ str_nat (i + 1)) (sm - sm * pf) (sm * pf)
                    (if i = 0 then (14 / 10) * sm * GRAVITY else 0) tvac bt dia
                    (dia * (if i = 0 then 10 else if i = 1 then 5 else 3)) pt)"
  using stage_index_cases [OF n i]
  unfolding R f pf sm pt tvac dia initial_stage_def Let_def
  by (elim disjE conjE)
     (simp_all add: stage_mass_fractions_def stage_propellants_def dict_get_def list_get_def
        mult.commute)

lemma stage_fraction_pos:
  assumes "n \<in> {1, 2, 3}" "i < nat n"
  shows "0 < the (stage_mass_fractions n) ! i"
  using stage_index_cases [OF assms]
  by (elim disjE conjE) (simp_all add: stage_mass_fractions_def)

lemma Stage_init_valid_ex:
  assumes "0 < dry" "0 < prop" "0 \<le> tvac"
  shows "\<exists>s. Stage_init nm dry prop tsl tvac bt dia len ptype = Inr s \<and> valid_stage s
           \<and> total_mass s = dry + prop \<and> thrust_sl s = tsl \<and> diameter s = dia
           \<and> stage_length s = len"
proof -
  have "\<exists>s. Stage_init nm dry prop tsl tvac bt dia len ptype = Inr s"
    unfolding Stage_init_Inr_iff using assms by simp
  then obtain s where s: "Stage_init nm dry prop tsl tvac bt dia len ptype = Inr s" ..
  have "valid_stage s" using s assms(1,2) by (rule Stage_init_valid)
  then show ?thesis
    using s Stage_init_fields(6,9,10,13) [OF s] by (intro exI [of _ s]) simp
qed

lemma initial_stage_ok:
  fixes payload target :: real
  assumes n: "n \<in> {1, 2, 3}" and i: "i < nat n" and p: "0 < payload"
  shows "\<exists>s. initial_stage target payload n i = Inr s \<and> valid_stage s
           \<and> total_mass s
               = payload * (if target < 100000 then 20 else if target < 400000 then 30 else 50)
                 * (the (stage_mass_fractions n) ! i)
           \<and> (i = 0 \<longrightarrow> thrust_sl s = (14 / 10) * total_mass s * GRAVITY)
           \<and> 0 < diameter s \<and> 0 < stage_length s"
proof -
  define R :: real where "R = (if target < 100000 then 20 else if target < 400000 then 30 else 50)"
  define f where "f = the (stage_mass_fractions n) ! i"
  define pf :: real where "pf = (if i = 0 then 93 / 100 else if i = 1 then 90 / 100 else 88 / 100)"
  define sm where "sm = payload * R * f"
  define pt where "pt = the (the (stage_propellants n) i)"
  define tvac where
    "tvac = (if i = 0 then (16 / 10) * sm * GRAVITY else (9 / 10) * sm * GRAVITY)"
  define dia :: real where
    "dia = (if target < 100000 then 15 / 10 else if target < 400000 then 37 / 10 else 84 / 10)
           * (if i = 0 then 1 else if i = 1 then 9 / 10 else 8 / 10)"
  define isp :: real where "isp = (if pt = ''LOX/RP1'' then 340 else 450)"
  define len where "len = dia * (if i = 0 then 10 else if i = 1 then 5 else 3)"
  define tsl where "tsl = (if i = 0 then (14 / 10) * sm * GRAVITY else 0)"
  have R: "0 < R" by (simp add: R_def)
  have f: "0 < f" unfolding f_def using n i by (rule stage_fraction_pos)
  have sm: "0 < sm" unfolding sm_def using p R f by simp
  have pf: "0 < pf" "pf < 1" by (simp_all add: pf_def)
  have pm: "0 < sm * pf" using sm pf by simp
  have "sm * pf < sm * 1" using pf(2) sm by (rule mult_strict_left_mono)
  then have dry: "0 < sm - sm * pf" by simp
  have tvac: "0 < tvac" using sm by (simp add: tvac_def GRAVITY_def)
  have isp: "0 < isp" by (simp add: isp_def)
  have dia: "0 < dia" by (simp add: dia_def)
  have len: "0 < len" using dia by (simp add: len_def)
  have ig: "isp * GRAVITY \<noteq> 0" using isp by (simp add: GRAVITY_def)
  have md: "tvac / (isp * GRAVITY) \<noteq> 0" using tvac ig by simp
  have bt: "(if 0 < sm * pf \<and> 0 < tvac
             then and_then (py_div tvac (isp * GRAVITY)) (\<lambda>mdot. py_div (sm * pf) mdot)
             else Inr 200) = Inr (sm * pf / (tvac / (isp * GRAVITY)))"
    using pm tvac ig md by (simp add: py_div_def)
  have eq: "initial_stage target payload n i =
          Stage_init (''Stage '' @ str_nat (i + 1)) (sm - sm * pf) (sm * pf) tsl tvac
            (sm * pf / (tvac / (isp * GRAVITY))) dia len pt"
    unfolding initial_stage_unfold [OF n i R_def f_def pf_def sm_def pt_def tvac_def dia_def]
    unfolding isp_def [symmetric] len_def [symmetric] tsl_def [symmetric] bt and_then_Inr ..
  obtain s where s: "Stage_init (''Stage '' @ str_nat (i + 1)) (sm - sm * pf) (sm * pf) tsl tvac
            (sm * pf / (tvac / (isp * GRAVITY))) dia len pt = Inr s"
    and v: "valid_stage s" and tm: "total_mass s = sm - sm * pf + sm * pf"
    and fs: "thrust_sl s = tsl" "diameter s = dia" "stage_length s = len"
    using Stage_init_valid_ex [OF dry pm less_imp_le [OF tvac]] by blast
  have tm': "total_mass s = sm" using tm by simp
  show ?thesis
    unfolding eq
    using s v tm' fs dia len
    by (intro exI [of _ s]) (simp add: sm_def R_def f_def tsl_def)
qed

lemma initial_stage_zero_payload:
  assumes n: "n \<in> {1, 2, 3}"
  shows "initial_stage target 0 n 0 = Inl ZeroDivisionError"
proof -
  have i: "0 < nat n" using n by auto
  show ?thesis
    unfolding initial_stage_unfold [OF n i refl refl refl refl refl refl refl]
    by (simp add: Stage_init_dry_zero)
qed

lemma initial_stage_negative_payload:
  fixes payload :: real
  assumes n: "n \<in> {1, 2, 3}" and p: "payload < 0"
  shows "initial_stage target payload n 0 = Inl ValueError"
proof -
  have i: "0 < nat n" using n by auto
  define R :: real where "R = (if target < 100000 then 20 else if target < 400000 then 30 else 50)"
  define f where "f = the (stage_mass_fractions n) ! 0"
  define sm where "sm = payload * R * f"
  have R: "0 < R" by (simp add: R_def)
  have f: "0 < f" unfolding f_def using n i by (rule stage_fraction_pos)
  have "payload * R < 0" using p R by (simp add: mult_neg_pos)
  then have sm: "sm < 0" unfolding sm_def using f by (simp add: mult_neg_pos)
  have pm: "\<not> 0 < sm * (93 / 100)" using sm by (simp add: not_less mult_le_0_iff)
  have dry: "sm - sm * (93 / 100) \<noteq> 0" using sm by simp
  have tv: "(16 / 10) * sm * GRAVITY < 0" using sm by (simp add: GRAVITY_def)
  show ?thesis
    unfolding initial_stage_unfold [OF n i R_def f_def refl sm_def refl refl refl]
    using pm Stage_init_negative_thrust [OF dry tv] by simp
qed

lemma collect_Inr:
  assumes "\<forall>x\<in>set xs. \<exists>y. f x = Inr y \<and> Q x y"
  shows "\<exists>ys. collect f xs = Inr ys \<and> list_all2 Q xs ys"
  using assms
proof (induction xs)
  case Nil
  show ?case by simp
next
  case (Cons x xs)
  obtain y where y: "f x = Inr y" "Q x y" using Cons.prems by auto
  obtain ys where ys: "collect f xs = Inr ys" "list_all2 Q xs ys"
    using Cons.IH Cons.prems by auto
  show ?case
    using y ys by (intro exI [of _ "y # ys"]) simp
qed

lemma collect_first_error: "f x = Inl e \<Longrightarrow> collect f (x # xs) = Inl e"
  by simp

lemma stage_indices: "n \<in> {1, 2, 3} \<Longrightarrow> [0 ..< nat n] = 0 # [1 ..< nat n]"
  by (auto simp: upt_conv_Cons)

lemma stage_fractions_sum:
  assumes "n \<in> {1, 2, 3}"
  shows "(\<Sum>i<nat n. the (stage_mass_fractions n) ! i) = 1"
  using assms
  by (auto simp: stage_mass_fractions_def eval_nat_numeral lessThan_Suc)

lemma get_height_pos:
  assumes "stages r \<noteq> []" "\<forall>s\<in>set (stages r). 0 < stage_length s"
  shows "0 < get_height r"
proof -
  have nn: "0 \<le> sum_list (map stage_length xs)" if "\<forall>s\<in>set xs. 0 < stage_length s" for xs
    using that by (induction xs) (auto intro: add_nonneg_nonneg less_imp_le)
  have "0 < sum_list (map stage_length (stages r))"
    using assms nn by (cases "stages r") (auto intro: add_pos_nonneg)
  then show ?thesis
    by (simp add: get_height_def foldl_add Let_def)
qed

lemma get_total_mass_pos:
  assumes "0 < payload_mass r" "\<forall>s\<in>set (stages r). 0 < total_mass s"
  shows "0 < get_total_mass r"
  unfolding get_total_mass_sum
  using assms(1) sum_list_total_pos [OF assms(2)] by (rule add_pos_nonneg)

lemma get_total_delta_v_defined:
  assumes "0 < payload_mass r"
    and "\<forall>s\<in>set (stages r). 0 < total_mass s \<and> total_mass s = dry_mass s + propellant_mass s"
  shows "get_total_delta_v r = Inr (staged_sum (payload_mass r) (stages r))"
  using total_delta_v_loop_value [OF assms, of 0]
  by (simp add: get_total_delta_v_def get_total_mass_sum)

lemma estimate_altitude_twr:
  assumes "0 < payload_mass (rocket opt)"
    and "\<forall>s\<in>set (stages (rocket opt)).
           0 < total_mass s \<and> total_mass s = dry_mass s + propellant_mass s"
  shows "estimate_altitude opt =
     (if liftoff_twr opt < 12 / 10 then Inr (0, [TWR_too_low (liftoff_twr opt)])
      else
          and_then (py_div (15 / 10) (liftoff_twr opt)) (\<lambda>q.
          let gravity_loss = 1500 * q
          in and_then (list_get (stages (rocket opt)) 0) (\<lambda>s0.
             let dia = diameter s0;
                 len = get_height (rocket opt)
             in and_then (py_div len dia) (\<lambda>fineness_ratio.
                and_then (py_div 3 fineness_ratio) (\<lambda>q3.
                let drag_loss = 300 * q3 * (dia / 3);
                    effective_delta_v = staged_sum (payload_mass (rocket opt)) (stages (rocket opt))
                                          - gravity_loss - drag_loss;
                    out = [Estimate_details
                             (staged_sum (payload_mass (rocket opt)) (stages (rocket opt)))
                             (liftoff_twr opt) gravity_loss drag_loss effective_delta_v]
                in if effective_delta_v \<le> 0 then Inr (0, out)
                   else if effective_delta_v < 7800
                   then Inr (effective_delta_v ^ 2 / (2 * GRAVITY) * (85 / 100), out)
                   else
                     and_then (py_div (GRAVITY * EARTH_RADIUS ^ 2) (effective_delta_v ^ 2))
                       (\<lambda>orbital_radius. Inr (max 0 (orbital_radius - EARTH_RADIUS), out)))))))"
proof -
  have dv: "get_total_delta_v (rocket opt)
              = Inr (staged_sum (payload_mass (rocket opt)) (stages (rocket opt)))"
    using assms by (rule get_total_delta_v_defined)
  have "\<forall>s\<in>set (stages (rocket opt)). 0 < total_mass s" using assms(2) by blast
  with assms(1) have "0 < get_total_mass (rocket opt)" by (rule get_total_mass_pos)
  then have "get_total_mass (rocket opt) * GRAVITY \<noteq> 0" by (simp add: GRAVITY_def)
  then have twr: "py_div (case stages (rocket opt) of [] \<Rightarrow> 0 | s # rest \<Rightarrow> thrust_sl s)
                    (get_total_mass (rocket opt) * GRAVITY) = Inr (liftoff_twr opt)"
    unfolding py_div_def liftoff_twr_def by (simp only: if_False)
  show ?thesis
    unfolding estimate_altitude_def dv and_then_Inr Let_def twr ..
qed

text \<open>
  Claim C6. For a rocket as the data model has it (positive payload, stages of positive
  dry mass and non-negative propellant mass) whose thrust-to-weight ratio at liftoff is
  below 1.2, \<open>_estimate_altitude\<close> returns exactly 0 and prints the warning that the
  ratio is too low for liftoff, and nothing else; it does not raise.
\<close>

theorem low_twr_altitude_estimate_is_zero:
  assumes "0 < payload_mass (rocket opt)"
    and "\<forall>s\<in>set (stages (rocket opt)).
           0 < dry_mass s \<and> 0 \<le> propellant_mass s
           \<and> total_mass s = dry_mass s + propellant_mass s"
    and "liftoff_twr opt < 12 / 10"
  shows "estimate_altitude opt = Inr (0, [TWR_too_low (liftoff_twr opt)])"
proof -
  have "\<forall>s\<in>set (stages (rocket opt)).
           0 < total_mass s \<and> total_mass s = dry_mass s + propellant_mass s"
    using assms(2) by (auto intro: add_pos_nonneg)
  from estimate_altitude_twr [OF assms(1) this] assms(3)
  show ?thesis by simp
qed

text \<open>The spec's scenario: a single stage whose sea-level thrust gives a ratio of 0.9.\<close>

theorem low_twr_witness:
  "\<exists>s. Stage_init ''Stage 1'' 100 800 8829 10000 100 1 10 ''LOX/RP1'' = Inr s
       \<and> liftoff_twr \<lparr> target_altitude = 100000, opt_payload_mass = 100,
                        propellant_type = ''LOX/LH2'', num_stages = 1, initial_diameter = 3,
                        safety_factor = 12 / 10,
                        rocket = \<lparr> payload_mass = 100, stages = [s] \<rparr>, max_altitude = 0 \<rparr>
           = 9 / 10
       \<and> estimate_altitude \<lparr> target_altitude = 100000, opt_payload_mass = 100,
                        propellant_type = ''LOX/LH2'', num_stages = 1, initial_diameter = 3,
                        safety_factor = 12 / 10,
                        rocket = \<lparr> payload_mass = 100, stages = [s] \<rparr>, max_altitude = 0 \<rparr>
           = Inr (0, [TWR_too_low (9 / 10)])"
proof -
  obtain s where s: "Stage_init ''Stage 1'' 100 800 8829 10000 100 1 10 ''LOX/RP1'' = Inr s"
    and v: "valid_stage s" and f: "total_mass s = 100 + 800" "thrust_sl s = 8829"
    using Stage_init_valid_ex [of 100 800 10000 "''Stage 1''" 8829 100 1 10 "''LOX/RP1''"]
    by auto
  let ?opt = "\<lparr> target_altitude = 100000, opt_payload_mass = 100,
                        propellant_type = ''LOX/LH2'', num_stages = 1, initial_diameter = 3,
                        safety_factor = 12 / 10,
                        rocket = \<lparr> payload_mass = 100, stages = [s] \<rparr>, max_altitude = 0 \<rparr>"
  have twr: "liftoff_twr ?opt = 9 / 10"
    by (simp add: liftoff_twr_def get_total_mass_sum f GRAVITY_def)
  have p: "0 < payload_mass (rocket ?opt)" by simp
  have st: "\<forall>s\<in>set (stages (rocket ?opt)).
           0 < dry_mass s \<and> 0 \<le> propellant_mass s
           \<and> total_mass s = dry_mass s + propellant_mass s"
    using v by (simp add: valid_stage_def)
  have lt: "liftoff_twr ?opt < 12 / 10" unfolding twr by simp
  have "estimate_altitude ?opt = Inr (0, [TWR_too_low (9 / 10)])"
    using low_twr_altitude_estimate_is_zero [OF p st lt] unfolding twr .
  with s twr show ?thesis by blast
qed

lemma estimate_altitude_succeeds:
  assumes p: "0 < payload_mass (rocket opt)"
    and st: "\<forall>s\<in>set (stages (rocket opt)).
               valid_stage s \<and> 0 < diameter s \<and> 0 < stage_length s"
  shows "\<exists>alt out. estimate_altitude opt = Inr (alt, out)"
proof (cases "liftoff_twr opt < 12 / 10")
  case True
  have "\<forall>s\<in>set (stages (rocket opt)).
           0 < total_mass s \<and> total_mass s = dry_mass s + propellant_mass s"
    using st by (auto simp: valid_stage_def)
  from estimate_altitude_twr [OF p this] True show ?thesis by simp
next
  case False
  have tm: "\<forall>s\<in>set (stages (rocket opt)).
           0 < total_mass s \<and> total_mass s = dry_mass s + propellant_mass s"
    using st by (auto simp: valid_stage_def)
  have twr: "liftoff_twr opt \<noteq> 0" using False by auto
  have ne: "stages (rocket opt) \<noteq> []"
    using False by (auto simp: liftoff_twr_def)
  then obtain s0 rest where sr: "stages (rocket opt) = s0 # rest"
    by (cases "stages (rocket opt)") auto
  have dia: "0 < diameter s0" using st sr by simp
  have "\<forall>s\<in>set (stages (rocket opt)). 0 < stage_length s" using st by blast
  with ne have h: "0 < get_height (rocket opt)" by (rule get_height_pos)
  have fin: "get_height (rocket opt) / diameter s0 \<noteq> 0" using h dia by simp
  define e where "e = staged_sum (payload_mass (rocket opt)) (stages (rocket opt))
                        - 1500 * ((15 / 10) / liftoff_twr opt)
                        - 300 * (3 / (get_height (rocket opt) / diameter s0)) * (diameter s0 / 3)"
  have sq: "e ^ 2 \<noteq> 0" if "\<not> e < 7800" using that by auto
  have l0: "list_get (stages (rocket opt)) 0 = Inr s0"
    by (simp add: list_get_def sr)
  have d1: "py_div (15 / 10) (liftoff_twr opt) = Inr ((15 / 10) / liftoff_twr opt)"
    using twr by (simp add: py_div_def)
  have d2: "py_div (get_height (rocket opt)) (diameter s0)
              = Inr (get_height (rocket opt) / diameter s0)"
    using dia by (simp add: py_div_def)
  have d3: "py_div 3 (get_height (rocket opt) / diameter s0)
              = Inr (3 / (get_height (rocket opt) / diameter s0))"
    using fin by (simp only: py_div_def if_False)
  have d4: "py_div (GRAVITY * EARTH_RADIUS ^ 2) (e ^ 2) = Inr (GRAVITY * EARTH_RADIUS ^ 2 / e ^ 2)"
    if "\<not> e < 7800"
    using sq [OF that] by (simp only: py_div_def if_False)
  have "estimate_altitude opt =
          (if e \<le> 0
           then Inr (0, [Estimate_details
                           (staged_sum (payload_mass (rocket opt)) (stages (rocket opt)))
                           (liftoff_twr opt) (1500 * ((15 / 10) / liftoff_twr opt))
                           (300 * (3 / (get_height (rocket opt) / diameter s0)) * (diameter s0 / 3))
                           e])
           else if e < 7800
           then Inr (e ^ 2 / (2 * GRAVITY) * (85 / 100),
                     [Estimate_details
                           (staged_sum (payload_mass (rocket opt)) (stages (rocket opt)))
                           (liftoff_twr opt) (1500 * ((15 / 10) / liftoff_twr opt))
                           (300 * (3 / (get_height (rocket opt) / diameter s0)) * (diameter s0 / 3))
                           e])
           else and_then (py_div (GRAVITY * EARTH_RADIUS ^ 2) (e ^ 2))
                  (\<lambda>orbital_radius. Inr (max 0 (orbital_radius - EARTH_RADIUS),
                     [Estimate_details
                           (staged_sum (payload_mass (rocket opt)) (stages (rocket opt)))
                           (liftoff_twr opt) (1500 * ((15 / 10) / liftoff_twr opt))
                           (300 * (3 / (get_height (rocket opt) / diameter s0)) * (diameter s0 / 3))
                           e])))"
    unfolding estimate_altitude_twr [OF p tm] e_def
    using False by (simp only: if_False d1 l0 d2 d3 and_then_Inr Let_def)
  then show ?thesis
    using d4 by (cases "e \<le> 0"; cases "e < 7800") simp_all
qed

lemma initial_stages_ok:
  fixes payload target :: real
  assumes n: "n \<in> {1, 2, 3}" and p: "0 < payload" and t: "target < 100000"
  shows "\<exists>sts. collect (initial_stage target payload n) [0 ..< nat n] = Inr sts
           \<and> length sts = nat n
           \<and> (\<forall>s\<in>set sts. valid_stage s \<and> 0 < diameter s \<and> 0 < stage_length s)
           \<and> sum_list (map total_mass sts) = 20 * payload"
proof -
  let ?Q = "\<lambda>i s. valid_stage s
              \<and> total_mass s = payload * 20 * (the (stage_mass_fractions n) ! i)
              \<and> 0 < diameter s \<and> 0 < stage_length s"
  have "\<forall>i\<in>set [0 ..< nat n]. \<exists>s. initial_stage target payload n i = Inr s \<and> ?Q i s"
  proof
    fix i
    assume "i \<in> set [0 ..< nat n]"
    then have i: "i < nat n" by simp
    show "\<exists>s. initial_stage target payload n i = Inr s \<and> ?Q i s"
      using initial_stage_ok [OF n i p, of target] t by auto
  qed
  then obtain sts where sts: "collect (initial_stage target payload n) [0 ..< nat n] = Inr sts"
    and all: "list_all2 ?Q [0 ..< nat n] sts"
    using collect_Inr [of "[0 ..< nat n]" "initial_stage target payload n" ?Q] by blast
  have len: "length sts = nat n"
    using list_all2_lengthD [OF all] by simp
  have each: "?Q i (sts ! i)" if "i < nat n" for i
    using list_all2_nthD [OF all, of i] that by simp
  have props: "\<forall>s\<in>set sts. valid_stage s \<and> 0 < diameter s \<and> 0 < stage_length s"
    using each len by (auto simp: in_set_conv_nth)
  have "sum_list (map total_mass sts) = (\<Sum>i<nat n. total_mass (sts ! i))"
    using len by (simp add: sum_list_sum_nth atLeast0LessThan)
  also have "\<dots> = (\<Sum>i<nat n. payload * 20 * (the (stage_mass_fractions n) ! i))"
    using each by (intro sum.cong) simp_all
  also have "\<dots> = payload * 20 * (\<Sum>i<nat n. the (stage_mass_fractions n) ! i)"
    by (simp add: sum_distrib_left)
  also have "\<dots> = 20 * payload"
    by (simp add: stage_fractions_sum [OF n])
  finally have total: "sum_list (map total_mass sts) = 20 * payload" .
  show ?thesis
    using sts len props total by blast
qed

lemma RocketOptimizer_init_payload_error:
  assumes n: "n \<in> {1, 2, 3}" and e: "initial_stage target payload n 0 = Inl e"
  shows "RocketOptimizer_init target payload ptype n dia0 sf = Inl e"
proof -
  have "collect (initial_stage target payload n) (0 # [1 ..< nat n]) = Inl e"
    using e by simp
  then show ?thesis
    unfolding RocketOptimizer_init_def stage_indices [OF n] by simp
qed

text \<open>
  Claim C7, as amended. Constructing the optimizer (for one to three stages) validates
  neither input. With a non-positive target altitude and a positive payload it succeeds:
  the target falls in the suborbital tier, and the rocket is sized at 20 times the payload
  in stages, 21 times the payload in all. With a payload of zero the first \<open>Stage\<close>
  divides by its zero dry mass (ZeroDivisionError), and with a negative payload the first
  stage's negative thrust puts a negative throat area under \<open>math.sqrt\<close> (ValueError):
  failures of the arithmetic, not descriptive errors about the input.
\<close>

theorem optimizer_construction_does_not_validate:
  fixes payload target :: real
  assumes n: "n \<in> {1, 2, 3}"
  shows "(target \<le> 0 \<and> 0 < payload \<longrightarrow>
           (\<exists>opt out. RocketOptimizer_init target payload ptype n dia0 sf = Inr (opt, out)
              \<and> target_altitude opt = target \<and> opt_payload_mass opt = payload
              \<and> length (stages (rocket opt)) = nat n
              \<and> get_total_mass (rocket opt) = 21 * payload))
         \<and> (payload = 0 \<longrightarrow>
              RocketOptimizer_init target payload ptype n dia0 sf = Inl ZeroDivisionError)
         \<and> (payload < 0 \<longrightarrow>
              RocketOptimizer_init target payload ptype n dia0 sf = Inl ValueError)"
proof (intro conjI impI)
  assume h: "target \<le> 0 \<and> 0 < payload"
  then have p: "0 < payload" and t: "target < 100000" by simp_all
  obtain sts where sts: "collect (initial_stage target payload n) [0 ..< nat n] = Inr sts"
    and len: "length sts = nat n"
    and props: "\<forall>s\<in>set sts. valid_stage s \<and> 0 < diameter s \<and> 0 < stage_length s"
    and total: "sum_list (map total_mass sts) = 20 * payload"
    using initial_stages_ok [OF n p t] by blast
  define opt where "opt = \<lparr> target_altitude = target, opt_payload_mass = payload,
      propellant_type = ptype, num_stages = n, initial_diameter = dia0, safety_factor = sf,
      rocket = \<lparr> payload_mass = payload, stages = sts \<rparr>, max_altitude = 0 \<rparr>"
  have "0 < payload_mass (rocket opt)" using p by (simp add: opt_def)
  moreover have "\<forall>s\<in>set (stages (rocket opt)).
      valid_stage s \<and> 0 < diameter s \<and> 0 < stage_length s"
    using props by (simp add: opt_def)
  ultimately obtain alt out where est: "estimate_altitude opt = Inr (alt, out)"
    using estimate_altitude_succeeds by blast
  have "RocketOptimizer_init target payload ptype n dia0 sf
          = Inr (opt\<lparr> max_altitude := alt \<rparr>, out @ [Initial_configuration n alt])"
    unfolding RocketOptimizer_init_def sts and_then_Inr Let_def opt_def [symmetric] est
    by simp
  moreover have "get_total_mass (rocket (opt\<lparr> max_altitude := alt \<rparr>)) = 21 * payload"
    by (simp add: get_total_mass_sum opt_def total)
  ultimately show "\<exists>opt out. RocketOptimizer_init target payload ptype n dia0 sf = Inr (opt, out)
              \<and> target_altitude opt = target \<and> opt_payload_mass opt = payload
              \<and> length (stages (rocket opt)) = nat n
              \<and> get_total_mass (rocket opt) = 21 * payload"
    using len
    by (intro exI [of _ "opt\<lparr> max_altitude := alt \<rparr>"]
          exI [of _ "out @ [Initial_configuration n alt]"]) (simp add: opt_def)
next
  assume "payload = 0"
  then show "RocketOptimizer_init target payload ptype n dia0 sf = Inl ZeroDivisionError"
    using RocketOptimizer_init_payload_error [OF n initial_stage_zero_payload [OF n]]
    by simp
next
  assume "payload < 0"
  then have "initial_stage target payload n 0 = Inl ValueError"
    using n by (intro initial_stage_negative_payload)
  then show "RocketOptimizer_init target payload ptype n dia0 sf = Inl ValueError"
    using n by (intro RocketOptimizer_init_payload_error)
qed

theorem optimizer_construction_witness:
  "(\<exists>opt out. RocketOptimizer_init (- 1000) 2000 ''LOX/LH2'' 2 3 (12 / 10) = Inr (opt, out)
      \<and> target_altitude opt = - 1000 \<and> get_total_mass (rocket opt) = 42000)
   \<and> RocketOptimizer_init 400000 0 ''LOX/LH2'' 2 3 (12 / 10) = Inl ZeroDivisionError
   \<and> RocketOptimizer_init 400000 (- 2000) ''LOX/LH2'' 2 3 (12 / 10) = Inl ValueError"
proof -
  have n: "(2::int) \<in> {1, 2, 3}" by simp
  have a: "(- 1000 :: real) \<le> 0 \<and> (0::real) < 2000" by simp
  have "\<exists>opt out. RocketOptimizer_init (- 1000) 2000 ''LOX/LH2'' 2 3 (12 / 10) = Inr (opt, out)
          \<and> target_altitude opt = - 1000 \<and> opt_payload_mass opt = 2000
          \<and> length (stages (rocket opt)) = nat 2
          \<and> get_total_mass (rocket opt) = 21 * 2000"
    using optimizer_construction_does_not_validate
            [OF n, of "- 1000" 2000 "''LOX/LH2''" 3 "12 / 10", THEN conjunct1, THEN mp, OF a] .
  then have first: "\<exists>opt out. RocketOptimizer_init (- 1000) 2000 ''LOX/LH2'' 2 3 (12 / 10)
                                = Inr (opt, out)
      \<and> target_altitude opt = - 1000 \<and> get_total_mass (rocket opt) = 42000"
    by (elim exE conjE, intro exI conjI) simp_all
  have second: "RocketOptimizer_init 400000 0 ''LOX/LH2'' 2 3 (12 / 10) = Inl ZeroDivisionError"
    using optimizer_construction_does_not_validate
            [OF n, of 400000 0 "''LOX/LH2''" 3 "12 / 10", THEN conjunct2, THEN conjunct1]
    by simp
  have third: "RocketOptimizer_init 400000 (- 2000) ''LOX/LH2'' 2 3 (12 / 10) = Inl ValueError"
    using optimizer_construction_does_not_validate
            [OF n, of 400000 "- 2000" "''LOX/LH2''" 3 "12 / 10", THEN conjunct2, THEN conjunct2]
    by simp
  from first second third show ?thesis by (intro conjI)
qed

text \<open>
  The claim as stated fails: the constructor with target altitude -1000 m, payload
  2000 kg and the default arguments returns an optimizer.
\<close>

theorem optimizer_accepts_negative_target_counterexample:
  "\<not> raises (RocketOptimizer_init (- 1000) 2000 ''LOX/LH2'' 2 3 (12 / 10))"
proof -
  have n: "(2::int) \<in> {1, 2, 3}" by simp
  have p: "(0::real) < 2000" and t: "(- 1000 :: real) < 100000" by simp_all
  obtain sts where sts: "collect (initial_stage (- 1000) 2000 2) [0 ..< nat 2] = Inr sts"
    and props: "\<forall>s\<in>set sts. valid_stage s \<and> 0 < diameter s \<and> 0 < stage_length s"
    using initial_stages_ok [OF n p t] by blast
  define opt where "opt = \<lparr> target_altitude = - 1000, opt_payload_mass = 2000,
      propellant_type = ''LOX/LH2'', num_stages = 2, initial_diameter = 3,
      safety_factor = 12 / 10,
      rocket = \<lparr> payload_mass = 2000, stages = sts \<rparr>, max_altitude = 0 \<rparr>"
  have "0 < payload_mass (rocket opt)" by (simp add: opt_def)
  moreover have "\<forall>s\<in>set (stages (rocket opt)).
      valid_stage s \<and> 0 < diameter s \<and> 0 < stage_length s"
    using props by (simp add: opt_def)
  ultimately obtain alt out where est: "estimate_altitude opt = Inr (alt, out)"
    using estimate_altitude_succeeds by blast
  have "RocketOptimizer_init (- 1000) 2000 ''LOX/LH2'' 2 3 (12 / 10)
          = Inr (opt\<lparr> max_altitude := alt \<rparr>, out @ [Initial_configuration 2 alt])"
    unfolding RocketOptimizer_init_def sts and_then_Inr Let_def opt_def [symmetric] est
    by simp
  then show ?thesis by (simp add: raises_def)
qed

section \<open>The atmosphere below sea level\<close>

lemma raises_simps [simp]: "raises (Inl e)" "\<not> raises (Inr x)"
  by (simp_all add: raises_def)

lemma raises_and_then:
  "raises (and_then m f) \<longleftrightarrow> raises m \<or> (\<exists>x. m = Inr x \<and> raises (f x))"
  by (cases m) simp_all

lemma raises_py_div: "raises (py_div x y) \<longleftrightarrow> y = 0"
  by (simp add: py_div_def)

lemma raises_dict_get: "raises (dict_get d k) \<longleftrightarrow> d k = None"
  by (simp add: dict_get_def split: option.splits)

lemma atmospheric_properties_negative:
  "h < 0 \<Longrightarrow> atmospheric_properties h = Inr (p0, rho0, T0)"
  by (simp add: atmospheric_properties_def)

lemma atmospheric_properties_zero:
  "atmospheric_properties 0 = Inr (p0, rho0, p0 / (rho0 * R_air))"
  by (simp add: atmospheric_properties_def py_div_def rho0_def R_air_def)

lemma drag_force_raises_negative:
  assumes "h < 0"
  shows "raises (drag_force a h v) \<longleftrightarrow> rocket_config a ''max_diameter'' = None"
proof -
  define c where "c = sqrt ((14 / 10) * R_air * T0)"
  have s: "py_sqrt ((14 / 10) * R_air * T0) = Inr c"
    by (simp add: py_sqrt_def c_def R_air_def T0_def)
  have pos: "0 < c"
    by (simp add: c_def R_air_def T0_def)
  show ?thesis
    unfolding drag_force_def atmospheric_properties_negative [OF assms] and_then_Inr
      prod.case s
    using pos by (simp add: raises_and_then raises_dict_get py_div_def Let_def)
qed

lemma drag_force_raises_zero:
  "raises (drag_force a 0 v) \<longleftrightarrow> rocket_config a ''max_diameter'' = None"
proof -
  define c where "c = sqrt ((14 / 10) * R_air * (p0 / (rho0 * R_air)))"
  have nn: "0 \<le> (14 / 10) * R_air * (p0 / (rho0 * R_air))"
    by (simp add: R_air_def p0_def rho0_def)
  then have s: "py_sqrt ((14 / 10) * R_air * (p0 / (rho0 * R_air))) = Inr c"
    unfolding c_def by (simp only: py_sqrt_def not_less [symmetric] if_False)
  have "0 < (14 / 10) * R_air * (p0 / (rho0 * R_air))"
    by (simp add: R_air_def p0_def rho0_def)
  then have pos: "0 < c"
    unfolding c_def by (simp only: real_sqrt_gt_0_iff)
  show ?thesis
    unfolding drag_force_def atmospheric_properties_zero and_then_Inr prod.case s
    using pos by (simp add: raises_and_then raises_dict_get py_div_def Let_def)
qed

lemma dynamics_raises:
  "raises (dynamics a t (h, v)) \<longleftrightarrow>
     raises (mass_function a t) \<or> raises (thrust_function a t) \<or> 6371000 + h = 0
     \<or> raises (drag_force a h v) \<or> mass_function a t = Inr 0"
proof (cases "mass_function a t")
  case (Inl e)
  then show ?thesis by (simp add: dynamics_def)
next
  case m: (Inr m)
  show ?thesis
  proof (cases "thrust_function a t")
    case (Inl e)
    then show ?thesis by (simp add: dynamics_def m)
  next
    case th: (Inr th)
    show ?thesis
    proof (cases "drag_force a h v")
      case (Inl e)
      then show ?thesis
        by (simp add: dynamics_def m th Let_def py_div_def)
    next
      case (Inr d)
      then show ?thesis
        by (simp add: dynamics_def m th Let_def py_div_def)
    qed
  qed
qed

text \<open>
  Claim C9. For every altitude below 0 the atmosphere model returns the sea-level
  pressure, density and temperature. So a negative altitude brings no raise of its own
  into the ascent dynamics: above the centre of the Earth's distance (\<open>-6371000 < h\<close>,
  where the gravity term divides by \<open>r_earth + altitude\<close>), \<open>dynamics\<close> raises at
  altitude \<open>h\<close> exactly when it raises at altitude 0 with the same time and velocity.
\<close>

theorem negative_altitude_degrades_to_sea_level:
  assumes "h < 0"
  shows "atmospheric_properties h = Inr (p0, rho0, T0)
         \<and> (- 6371000 < h \<longrightarrow>
              (raises (dynamics a t (h, v)) \<longleftrightarrow> raises (dynamics a t (0, v))))"
proof (intro conjI impI)
  show "atmospheric_properties h = Inr (p0, rho0, T0)"
    using assms by (rule atmospheric_properties_negative)
  assume "- 6371000 < h"
  then have "6371000 + h \<noteq> 0" by simp
  then show "raises (dynamics a t (h, v)) \<longleftrightarrow> raises (dynamics a t (0, v))"
    unfolding dynamics_raises drag_force_raises_negative [OF assms] drag_force_raises_zero
    by simp
qed

theorem negative_altitude_witness:
  "atmospheric_properties (- 1 / 2) = Inr (p0, rho0, T0)
   \<and> \<not> raises (dynamics \<lparr> rocket_config = [''max_diameter'' \<mapsto> 500],
                           performance_metrics = [''thrust'' \<mapsto> 20000],
                           pa_dry_mass = 500, pa_propellant_mass = 200, pa_burn_time = 10,
                           pa_total_mass = 700, trajectory_data = None \<rparr>
                 0 (- 1 / 2, - 3))"
proof -
  let ?a = "\<lparr> rocket_config = [''max_diameter'' \<mapsto> 500],
             performance_metrics = [''thrust'' \<mapsto> 20000],
             pa_dry_mass = 500, pa_propellant_mass = 200, pa_burn_time = 10,
             pa_total_mass = 700, trajectory_data = None \<rparr>"
  have neg: "(- 1 / 2 :: real) < 0" and above: "(- 6371000 :: real) < - 1 / 2" by simp_all
  have m: "mass_function ?a 0 = Inr 700"
    by (simp add: mass_function_def py_div_def)
  have th: "thrust_function ?a 0 = Inr 20000"
    by (simp add: thrust_function_def dict_get_def)
  have "\<not> raises (dynamics ?a 0 (0, - 3))"
    unfolding dynamics_raises drag_force_raises_zero m th by simp
  then have "\<not> raises (dynamics ?a 0 (- 1 / 2, - 3))"
    using negative_altitude_degrades_to_sea_level [OF neg, of ?a 0 "- 3"] above by blast
  moreover have "atmospheric_properties (- 1 / 2) = Inr (p0, rho0, T0)"
    using negative_altitude_degrades_to_sea_level [OF neg, of ?a 0 "- 3"] by blast
  ultimately show ?thesis by (intro conjI)
qed

section \<open>The payload search\<close>

lemma analyze_trajectory_Inr:
  assumes "analyze_trajectory solver a = Inr (a', tr)"
  shows "a' = a\<lparr> trajectory_data := Some tr \<rparr>"
  using assms by (cases "solver a") (simp_all add: analyze_trajectory_def)

lemma payload_search_frame_aux:
  assumes "payload_search solver original maximize target rng step cp ca a = Some y"
  shows "\<forall>p alt a'. y = Inr (p, alt, a')
           \<longrightarrow> (\<exists>d t. a' = a\<lparr> pa_dry_mass := d, trajectory_data := t \<rparr>)"
proof (rule payload_search.raw_induct
         [where P = "\<lambda>solver original maximize target rng step cp ca a y.
                       \<forall>p alt a'. y = Inr (p, alt, a')
                         \<longrightarrow> (\<exists>d t. a' = a\<lparr> pa_dry_mass := d, trajectory_data := t \<rparr>)",
          OF _ assms])
  fix f solver original maximize target rng step cp ca a y
  assume IH: "\<And>solver original maximize target rng step cp ca a y.
                f solver original maximize target rng step cp ca a = Some y \<Longrightarrow>
                \<forall>p alt a'. y = Inr (p, alt, a')
                  \<longrightarrow> (\<exists>d t. a' = a\<lparr> pa_dry_mass := d, trajectory_data := t \<rparr>)"
    and eq: "(if 1 / 10 \<le> step then
        (let test_payload = cp + step;
             a1 = a\<lparr> pa_dry_mass := original - cp + test_payload \<rparr>
         in case analyze_trajectory solver a1 of
              Inl e \<Rightarrow> Some (Inl e)
            | Inr (a2, tr) \<Rightarrow>
                (let test_altitude = apogee tr
                 in if maximize then
                      (if target \<le> test_altitude
                       then f solver original maximize target rng
                              step test_payload test_altitude a2
                       else f solver original maximize target rng
                              (step / 2) cp ca a2)
                    else if \<bar>test_altitude - target\<bar> \<le> rng
                      then Some (Inr (test_payload, test_altitude, a2))
                    else if target < test_altitude
                      then f solver original maximize target rng
                             step test_payload test_altitude a2
                    else f solver original maximize target rng
                           (step / 2) cp ca a2))
      else Some (Inr (cp, ca, a))) = Some y"
  show "\<forall>p alt a'. y = Inr (p, alt, a')
          \<longrightarrow> (\<exists>d t. a' = a\<lparr> pa_dry_mass := d, trajectory_data := t \<rparr>)"
    (is ?case)
  proof (cases "1 / 10 \<le> step")
    case False
    have "y = Inr (cp, ca, a)"
      using eq unfolding if_not_P [OF False] by simp
    moreover have "a = a\<lparr> pa_dry_mass := pa_dry_mass a, trajectory_data := trajectory_data a \<rparr>"
      by simp
    ultimately show ?thesis by blast
  next
    case True
    let ?a1 = "a\<lparr> pa_dry_mass := original - cp + (cp + step) \<rparr>"
    have eq': "(case analyze_trajectory solver ?a1 of
                  Inl e \<Rightarrow> Some (Inl e)
                | Inr (a2, tr) \<Rightarrow>
                   (if maximize
                     then if target \<le> apogee tr
                          then f solver original maximize target rng step
                                 (cp + step) (apogee tr) a2
                          else f solver original maximize target rng (step / 2) cp ca a2
                     else if \<bar>apogee tr - target\<bar> \<le> rng
                          then Some (Inr (cp + step, apogee tr, a2))
                          else if target < apogee tr
                               then f solver original maximize target rng step
                                      (cp + step) (apogee tr) a2
                               else f solver original maximize target rng
                                      (step / 2) cp ca a2)) = Some y"
      using eq unfolding if_P [OF True] Let_def .
    show ?thesis
    proof (cases "analyze_trajectory solver ?a1")
      case (Inl e)
      have "y = Inl e"
        using eq' unfolding Inl sum.case by simp
      then show ?thesis by simp
    next
      case (Inr r)
      obtain a2 tr where r: "r = (a2, tr)" by (cases r)
      have "analyze_trajectory solver ?a1 = Inr (a2, tr)"
        using Inr r by simp
      then have "a2 = ?a1\<lparr> trajectory_data := Some tr \<rparr>"
        by (rule analyze_trajectory_Inr)
      then have a2: "a2 = a\<lparr> pa_dry_mass := original - cp + (cp + step),
                           trajectory_data := Some tr \<rparr>"
        by simp
      have body: "(if maximize
                     then if target \<le> apogee tr
                          then f solver original maximize target rng step
                                 (cp + step) (apogee tr) a2
                          else f solver original maximize target rng (step / 2) cp ca a2
                     else if \<bar>apogee tr - target\<bar> \<le> rng
                          then Some (Inr (cp + step, apogee tr, a2))
                          else if target < apogee tr
                               then f solver original maximize target rng step
                                      (cp + step) (apogee tr) a2
                               else f solver original maximize target rng
                                      (step / 2) cp ca a2) = Some y"
        using eq' unfolding Inr r sum.case prod.case .
      have stop: ?thesis if "y = Inr (cp + step, apogee tr, a2)"
      proof (intro allI impI)
        fix p alt a'
        assume "y = Inr (p, alt, a')"
        then have "a' = a2" using that by simp
        then show "\<exists>d t. a' = a\<lparr> pa_dry_mass := d, trajectory_data := t \<rparr>"
          using a2 by blast
      qed
      have go: ?thesis if rec: "f solver original maximize target rng st p h a2 = Some y"
        for st p h
      proof (intro allI impI)
        fix p' alt a'
        assume y: "y = Inr (p', alt, a')"
        obtain d t where "a' = a2\<lparr> pa_dry_mass := d, trajectory_data := t \<rparr>"
          using IH [OF rec] y by blast
        then have "a' = a\<lparr> pa_dry_mass := d, trajectory_data := t \<rparr>"
          unfolding a2 by simp
        then show "\<exists>d t. a' = a\<lparr> pa_dry_mass := d, trajectory_data := t \<rparr>"
          by blast
      qed
      show ?thesis
      proof (cases maximize)
        case mx: True
        show ?thesis
        proof (cases "target \<le> apogee tr")
          case True
          have "f solver original maximize target rng step (cp + step) (apogee tr) a2 = Some y"
            using body unfolding if_P [OF mx] if_P [OF True] .
          then show ?thesis by (rule go)
        next
          case False
          have "f solver original maximize target rng (step / 2) cp ca a2 = Some y"
            using body unfolding if_P [OF mx] if_not_P [OF False] .
          then show ?thesis by (rule go)
        qed
      next
        case mx: False
        show ?thesis
        proof (cases "\<bar>apogee tr - target\<bar> \<le> rng")
          case True
          have "Some (Inr (cp + step, apogee tr, a2)) = Some y"
            using body unfolding if_not_P [OF mx] if_P [OF True] .
          then have "y = Inr (cp + step, apogee tr, a2)" by simp
          then show ?thesis by (rule stop)
        next
          case out: False
          show ?thesis
          proof (cases "target < apogee tr")
            case True
            have "f solver original maximize target rng step (cp + step) (apogee tr) a2 = Some y"
              using body unfolding if_not_P [OF mx] if_not_P [OF out] if_P [OF True] .
            then show ?thesis by (rule go)
          next
            case False
            have "f solver original maximize target rng (step / 2) cp ca a2 = Some y"
              using body unfolding if_not_P [OF mx] if_not_P [OF out] if_not_P [OF False] .
            then show ?thesis by (rule go)
          qed
        qed
      qed
    qed
  qed
qed

text \<open>
  Claim C8. Whenever \<open>calculate_maximum_payload\<close> returns, with or without a target
  altitude or an altitude range and whatever the trajectory analysis answered during the
  search, the analyzer's dry mass is the one it had on entry. The call leaves nothing
  changed but \<open>trajectory_data\<close>. (A search that never ends, or an analysis that
  raises, is no return, and is outside the claim.)
\<close>

theorem calculate_maximum_payload_restores_dry_mass:
  assumes "calculate_maximum_payload solver a target_opt range_opt = Some (Inr (a', info))"
  shows "pa_dry_mass a' = pa_dry_mass a \<and> a' = a\<lparr> trajectory_data := trajectory_data a' \<rparr>"
proof -
  define target :: real where "target = (case target_opt of None \<Rightarrow> 1000 | Some t \<Rightarrow> t)"
  define rng where "rng = (case range_opt of None \<Rightarrow> target * (5 / 100) | Some r \<Rightarrow> r)"
  have unfolded: "(case analyze_trajectory solver a of
           Inl e \<Rightarrow> Some (Inl e)
         | Inr (a1, tr) \<Rightarrow>
             (case payload_search solver (pa_dry_mass a) (target_opt = None) target rng
                        25 50 (apogee tr) a1 of
                   None \<Rightarrow> None
                 | Some (Inl e) \<Rightarrow> Some (Inl e)
                 | Some (Inr (payload, altitude, a2)) \<Rightarrow>
                     Some (Inr (a2\<lparr> pa_dry_mass := pa_dry_mass a \<rparr>,
                                \<lparr> max_payload = payload, altitude_with_max_payload = altitude,
                                  info_target_altitude = target,
                                  altitude_difference = altitude - target \<rparr>))))
        = Some (Inr (a', info))"
    using assms unfolding calculate_maximum_payload_def Let_def target_def rng_def
    by simp
  show ?thesis
  proof (cases "analyze_trajectory solver a")
    case (Inl e)
    then show ?thesis using unfolded by simp
  next
    case (Inr r)
    obtain a1 tr where r: "r = (a1, tr)" by (cases r)
    have "analyze_trajectory solver a = Inr (a1, tr)" using Inr r by simp
    then have a1: "a1 = a\<lparr> trajectory_data := Some tr \<rparr>"
      by (rule analyze_trajectory_Inr)
    have search: "(case payload_search solver (pa_dry_mass a) (target_opt = None) target rng
                        25 50 (apogee tr) a1 of
                   None \<Rightarrow> None
                 | Some (Inl e) \<Rightarrow> Some (Inl e)
                 | Some (Inr (payload, altitude, a2)) \<Rightarrow>
                     Some (Inr (a2\<lparr> pa_dry_mass := pa_dry_mass a \<rparr>,
                                \<lparr> max_payload = payload, altitude_with_max_payload = altitude,
                                  info_target_altitude = target,
                                  altitude_difference = altitude - target \<rparr>)))
        = Some (Inr (a', info))"
      using unfolded unfolding Inr r sum.case prod.case .
    show ?thesis
    proof (cases "payload_search solver (pa_dry_mass a) (target_opt = None) target rng
                    25 50 (apogee tr) a1")
      case None
      then show ?thesis using search by simp
    next
      case (Some z)
      show ?thesis
      proof (cases z)
        case (Inl e)
        then show ?thesis using search Some by simp
      next
        case z: (Inr q)
        obtain p alt a2 where q: "q = (p, alt, a2)" by (cases q)
        have found: "payload_search solver (pa_dry_mass a) (target_opt = None) target rng
                       25 50 (apogee tr) a1 = Some (Inr (p, alt, a2))"
          using Some z q by simp
        have a': "a' = a2\<lparr> pa_dry_mass := pa_dry_mass a \<rparr>"
          using search unfolding found by simp
        obtain d t where "a2 = a1\<lparr> pa_dry_mass := d, trajectory_data := t \<rparr>"
          using payload_search_frame_aux [OF found] by blast
        then have "a' = a\<lparr> trajectory_data := t \<rparr>"
          unfolding a' a1 by simp
        then show ?thesis by simp
      qed
    qed
  qed
qed

text \<open>
  A search that runs: the apogee falls with the dry mass, the first heavier payload
  lands within 5 percent of the target, and the dry mass is back at 500.
\<close>

theorem calculate_maximum_payload_witness:
  "\<exists>a' info.
     calculate_maximum_payload
       (\<lambda>a. Inr \<lparr> apogee = 1500 - pa_dry_mass a, apogee_time = 20, max_velocity = 150,
                   max_acceleration = 30, max_q = 4000 \<rparr>)
       \<lparr> rocket_config = [''max_diameter'' \<mapsto> 500],
         performance_metrics = [''thrust'' \<mapsto> 20000],
         pa_dry_mass = 500, pa_propellant_mass = 200, pa_burn_time = 10,
         pa_total_mass = 700, trajectory_data = None \<rparr>
       (Some 950) None = Some (Inr (a', info))
     \<and> max_payload info = 75 \<and> pa_dry_mass a' = 500"
proof -
  let ?solver = "\<lambda>a. Inr \<lparr> apogee = 1500 - pa_dry_mass a, apogee_time = 20, max_velocity = 150,
                   max_acceleration = 30, max_q = 4000 \<rparr>"
  let ?a = "\<lparr> rocket_config = [''max_diameter'' \<mapsto> 500],
         performance_metrics = [''thrust'' \<mapsto> 20000],
         pa_dry_mass = 500, pa_propellant_mass = 200, pa_burn_time = 10,
         pa_total_mass = 700, trajectory_data = None \<rparr>"
  have "\<exists>a' info. calculate_maximum_payload ?solver ?a (Some 950) None = Some (Inr (a', info))
          \<and> max_payload info = 75"
    unfolding calculate_maximum_payload_def Let_def
    by (subst payload_search.simps) (simp add: analyze_trajectory_def Let_def)
  then obtain a' info where r: "calculate_maximum_payload ?solver ?a (Some 950) None
                                  = Some (Inr (a', info))" and m: "max_payload info = 75"
    by blast
  have "pa_dry_mass a' = pa_dry_mass ?a"
    using calculate_maximum_payload_restores_dry_mass [OF r] by (rule conjunct1)
  then have "pa_dry_mass a' = 500" by simp
  with r m show ?thesis by blast
qed

end
